theory Spec2Isabelle
  imports Main "HOL-Library.AList"
begin

section \<open>Python values\<close>

text \<open>
  A Python \<^verbatim>\<open>str\<close> is a sequence of Unicode code points and \<^verbatim>\<open>len\<close> counts code
  points, so a string is modelled as the list of its code points. \<open>lit\<close> turns a
  literal of the source into that representation.
\<close>

type_synonym pystr = "nat list"

abbreviation lit :: "string \<Rightarrow> pystr" where
  "lit s \<equiv> map of_char s"

text \<open>The decimal rendering of a non-negative \<^verbatim>\<open>int\<close> inside an f-string.\<close>

fun str_nat :: "nat \<Rightarrow> pystr" where
  "str_nat n = (if n < 10 then [48 + n] else str_nat (n div 10) @ [48 + n mod 10])"

definition str_int :: "int \<Rightarrow> pystr" where
  "str_int i = (if i < 0 then lit ''-'' @ str_nat (nat (- i)) else str_nat (nat i))"

text \<open>\<^verbatim>\<open>s.rstrip(chars)\<close>: every trailing character that is in \<open>chars\<close> is removed.\<close>

definition rstrip :: "pystr \<Rightarrow> pystr \<Rightarrow> pystr" where
  "rstrip chars s = rev (dropWhile (\<lambda>ch. ch \<in> set chars) (rev s))"

text \<open>
  A decoded JSON body. A dictionary is the association list of its items, in insertion
  order, with distinct keys. A number is carried as an integer (a float scalar takes the
  same branches: it is neither a dictionary nor a list, and it is falsy exactly when it
  is zero).
\<close>

datatype json =
    JNull
  | JBool bool
  | JNum int
  | JStr pystr
  | JList "json list"
  | JDict "(pystr \<times> json) list"

text \<open>Python truth value (\<^verbatim>\<open>not x\<close> is its negation).\<close>

fun truthy :: "json \<Rightarrow> bool" where
  "truthy JNull = False"
| "truthy (JBool b) = b"
| "truthy (JNum n) = (n \<noteq> 0)"
| "truthy (JStr s) = (s \<noteq> [])"
| "truthy (JList xs) = (xs \<noteq> [])"
| "truthy (JDict kvs) = (kvs \<noteq> [])"

text \<open>\<^verbatim>\<open>d.get(k)\<close>: the stored value, \<^verbatim>\<open>None\<close> when the key is absent.\<close>

definition dict_get :: "(pystr \<times> json) list \<Rightarrow> pystr \<Rightarrow> json" where
  "dict_get kvs k = (case map_of kvs k of None \<Rightarrow> JNull | Some v \<Rightarrow> v)"

section \<open>Exceptions\<close>

text \<open>
  Modelled from the spec: \<^verbatim>\<open>utils/exceptions.py\<close> is imported by the script and is not
  among the sources. The classes the script names are taken as disjoint leaves:
  \<open>ApiError\<close> stands for an API error that is neither an authentication error nor a
  timeout, \<open>OtherException\<close> for any further subclass of \<^verbatim>\<open>Exception\<close>.
  \<open>KeyError\<close> carries the missing key, the others their message.
\<close>

datatype exn =
    ApiAuthenticationError
  | ApiTimeoutError
  | ApiError
  | KeyError pystr
  | ConfigurationError pystr
  | HelpfulError pystr
  | FileOperationError pystr
  | OtherException

text \<open>\<^verbatim>\<open>d[k]\<close> on a dictionary whose entry for \<open>k\<close> is \<open>v\<close> (\<open>None\<close>: no entry).\<close>

fun subscript :: "'a option \<Rightarrow> string \<Rightarrow> exn + 'a" where
  "subscript None k = Inl (KeyError (lit k))"
| "subscript (Some v) k = Inr v"

text \<open>\<^verbatim>\<open>str(e)\<close> of a \<^verbatim>\<open>KeyError\<close> is the \<^verbatim>\<open>repr\<close> of the key: the key in single quotes.\<close>

definition repr_key :: "pystr \<Rightarrow> pystr" where
  "repr_key k = lit [CHR 0x27] @ k @ lit [CHR 0x27]"

section \<open>Configuration\<close>

text \<open>
  The configuration is a nested dictionary; a field is \<open>None\<close> when the key is absent.
  The values have the types the script annotates. \<^verbatim>\<open>_env_type\<close> and \<^verbatim>\<open>_org_id\<close> are
  injected by the loader and always present.
\<close>

record bc_section =
  bc_environment_name :: "pystr option"
  bc_companies :: "pystr list option"
  bc_apis :: "pystr list option"

record behavior_section =
  excel_output_filename :: "pystr option"

record global_section =
  api_base_url :: "pystr option"
  api_version :: "pystr option"
  tenant_id :: "pystr option"

record config =
  business_central :: "bc_section option"
  script_behavior :: "behavior_section option"
  global :: "global_section option"
  env_type :: pystr
  org_id :: pystr

section \<open>Sheet names and request URLs\<close>

definition invalid :: "nat set" where
  "invalid = set (lit [CHR '':'', CHR 0x5C, CHR ''/'', CHR ''?'', CHR ''*'', CHR ''['', CHR '']''])"

definition safe_sheet_name :: "pystr \<Rightarrow> pystr" where
  "safe_sheet_name name =
     (let cleaned = filter (\<lambda>ch. ch \<notin> invalid) name
      in if length cleaned > 31 then take 31 cleaned else cleaned)"

definition build_bc_url :: "config \<Rightarrow> pystr \<Rightarrow> pystr \<Rightarrow> pystr \<Rightarrow> exn + pystr" where
  "build_bc_url config environment company api_name =
     (case subscript (global config) ''global'' of
        Inl e \<Rightarrow> Inl e
      | Inr g \<Rightarrow>
     (case subscript (api_base_url g) ''api-base-url'' of
        Inl e \<Rightarrow> Inl e
      | Inr url \<Rightarrow>
     (case subscript (api_version g) ''api-version'' of
        Inl e \<Rightarrow> Inl e
      | Inr version \<Rightarrow>
     (case subscript (tenant_id g) ''tenant-id'' of
        Inl e \<Rightarrow> Inl e
      | Inr tenant \<Rightarrow>
          Inr (rstrip (lit ''/'') url @ lit ''/'' @ version @ lit ''/'' @ tenant @ lit ''/''
               @ environment @ lit ''/ODataV4/'' @ lit ''Company('' @ lit [CHR 0x27] @ company
               @ lit [CHR 0x27] @ lit '')/'' @ api_name)))))"

section \<open>Tables\<close>

text \<open>
  A pandas \<^verbatim>\<open>DataFrame\<close>: its column labels and its rows, each row holding one cell per
  column (\<open>None\<close> where the record has no such field).
\<close>

record table =
  columns :: "pystr list"
  rows :: "json option list list"

text \<open>
  \<^verbatim>\<open>pd.DataFrame\<close> on a list of dictionaries: the columns are the keys in order of first
  appearance, and every dictionary gives one row.
\<close>

definition frame_of_dicts :: "(pystr \<times> json) list list \<Rightarrow> table" where
  "frame_of_dicts ds =
     (let cols = rev (remdups (rev (concat (map (map fst) ds))))
      in \<lparr>columns = cols, rows = map (\<lambda>d. map (map_of d) cols) ds\<rparr>)"

text \<open>\<^verbatim>\<open>df.iloc[lo:hi]\<close> for non-negative bounds: the rows from \<open>lo\<close> up to \<open>hi\<close>.\<close>

definition iloc :: "nat \<Rightarrow> nat \<Rightarrow> table \<Rightarrow> table" where
  "iloc lo hi df = df\<lparr>rows := take (hi - lo) (drop lo (rows df))\<rparr>"

fun dicts_of :: "json list \<Rightarrow> (pystr \<times> json) list list option" where
  "dicts_of [] = Some []"
| "dicts_of (JDict kvs # xs) = map_option ((#) kvs) (dicts_of xs)"
| "dicts_of (x # xs) = None"

text \<open>
  \<^verbatim>\<open>pd.DataFrame.from_records\<close>. On a list of dictionaries it builds the frame above,
  except that a frame without columns (no dictionary has a key) has no row either. What
  pandas does with any other argument is the parameter \<open>pd\<close>: a frame, or \<open>None\<close>
  when pandas raises (an exception of its own, none of the API classes).
\<close>

definition from_records :: "(json \<Rightarrow> table option) \<Rightarrow> json \<Rightarrow> table option" where
  "from_records pd records =
     (case records of
        JList xs \<Rightarrow>
          (case dicts_of xs of
             Some ds \<Rightarrow>
               Some (let df = frame_of_dicts ds in if columns df = [] then df\<lparr>rows := []\<rparr> else df)
           | None \<Rightarrow> pd records)
      | _ \<Rightarrow> pd records)"

definition to_dataframe :: "(json \<Rightarrow> table option) \<Rightarrow> json \<Rightarrow> table option" where
  "to_dataframe pd records =
     (if \<not> truthy records
      then Some (iloc 0 0 (frame_of_dicts [[(lit ''_no_rows'', JBool True)]]))
      else from_records pd records)"

section \<open>Run results\<close>

record ProcessingResults =
  created :: "pystr list"
  updated :: "pystr list"
  failed :: "pystr list"
  expected_errors :: int

definition summary :: "ProcessingResults \<Rightarrow> pystr" where
  "summary r =
     (let total_success = length (created r) + length (updated r)
      in if failed r \<noteq> []
         then [0x274C] @ lit '' Completed with '' @ str_nat (length (failed r)) @ lit '' failures: ''
              @ str_nat (length (created r)) @ lit '' created, ''
              @ str_nat (length (updated r)) @ lit '' updated, ''
              @ str_nat (length (failed r)) @ lit '' failed''
         else let expected_note =
                    (if expected_errors r > 0
                     then lit '' ('' @ str_int (expected_errors r) @ lit '' handled expected duplicates)''
                     else [])
              in [0x2705] @ lit '' All '' @ str_nat total_success @ lit '' operations successful: ''
                 @ str_nat (length (created r)) @ lit '' created, ''
                 @ str_nat (length (updated r)) @ lit '' updated'' @ expected_note)"

section \<open>The fetch loop\<close>

text \<open>
  What the run takes from its collaborators:
  \<^item> \<open>api_get\<close>: the reply of \<^verbatim>\<open>api.get(url)\<close>, a decoded body or the exception raised, as a
    function of the URLs requested before (the client has state) and of the URL;
  \<^item> \<open>pd_other\<close>: pandas on a row source that is not a list of dictionaries;
  \<^item> \<open>excel_write\<close>: whether writing the sheets to the output path succeeds (\<open>False\<close>:
    the writer raises);
  \<^item> \<open>get_path\<close>: the output path of a file name, as a string, and \<open>path_name\<close>: the
    \<^verbatim>\<open>name\<close> of that path;
  \<^item> \<open>utc_timestamp\<close>: the time stamp of the run.
  Opening the client (\<^verbatim>\<open>ApiManager\<close>), \<^verbatim>\<open>get_path\<close>, \<^verbatim>\<open>data_handler.save\<close> and the logger
  are taken to return normally. Of the log only the final status line is modelled.
\<close>

record externals =
  api_get :: "pystr list \<Rightarrow> pystr \<Rightarrow> exn + json"
  pd_other :: "json \<Rightarrow> table option"
  excel_write :: "pystr \<Rightarrow> (pystr \<times> table) list \<Rightarrow> bool"
  get_path :: "pystr \<Rightarrow> pystr"
  path_name :: "pystr \<Rightarrow> pystr"
  utc_timestamp :: pystr

text \<open>
  The state of the loop: the results, the sheets (a dictionary in insertion order, where
  an assignment to an existing key replaces its value in place) and the URLs requested
  so far.
\<close>

record fetch_state =
  results :: ProcessingResults
  sheets :: "(pystr \<times> table) list"
  requests :: "pystr list"

text \<open>Lines 126 to 130 of \<^verbatim>\<open>main\<close>: the row source of a payload.\<close>

definition normalize_records :: "json \<Rightarrow> json" where
  "normalize_records payload =
     (let records = (case payload of JDict kvs \<Rightarrow> dict_get kvs (lit ''value'') | _ \<Rightarrow> JNull)
      in if records = JNull
         then (case payload of JList xs \<Rightarrow> payload | _ \<Rightarrow> JList [])
         else records)"

text \<open>The reason each \<^verbatim>\<open>except\<close> clause of the loop records, in the order of the clauses.\<close>

fun failure_reason :: "exn \<Rightarrow> pystr" where
  "failure_reason ApiAuthenticationError = lit ''auth failed''"
| "failure_reason ApiTimeoutError = lit ''timeout''"
| "failure_reason ApiError = lit ''api error''"
| "failure_reason e = lit ''unexpected error''"

text \<open>
  The body of the loop. The URL is built outside the \<^verbatim>\<open>try\<close>, so a missing key of the
  \<^verbatim>\<open>global\<close> section leaves the loop as a \<^verbatim>\<open>KeyError\<close>; everything after it is inside.
\<close>

definition fetch_pair ::
  "externals \<Rightarrow> config \<Rightarrow> pystr \<Rightarrow> pystr \<Rightarrow> pystr \<Rightarrow> fetch_state \<Rightarrow> exn option \<times> fetch_state" where
  "fetch_pair ext config environment company api_name st =
     (case build_bc_url config environment company api_name of
        Inl e \<Rightarrow> (Some e, st)
      | Inr url \<Rightarrow>
          (let label = lit ''BusinessCentral/'' @ company @ lit ''/'' @ api_name;
               st1 = st\<lparr>requests := requests st @ [url]\<rparr>;
               fail = (\<lambda>reason. st1\<lparr>results := (results st1)
                          \<lparr>failed := failed (results st1) @ [label @ lit '': '' @ reason]\<rparr>\<rparr>)
           in (None,
               (case api_get ext (requests st) url of
                  Inl e \<Rightarrow> fail (failure_reason e)
                | Inr payload \<Rightarrow>
                    (case to_dataframe (pd_other ext) (normalize_records payload) of
                       None \<Rightarrow> fail (lit ''unexpected error'')
                     | Some df \<Rightarrow>
                         st1\<lparr>sheets := AList.update (safe_sheet_name (company @ lit ''__'' @ api_name))
                                         df (sheets st1),
                             results := (results st1)
                               \<lparr>created := created (results st1) @ [label]\<rparr>\<rparr>)))))"

fun fetch_apis ::
  "externals \<Rightarrow> config \<Rightarrow> pystr \<Rightarrow> pystr \<Rightarrow> pystr list \<Rightarrow> fetch_state \<Rightarrow> exn option \<times> fetch_state" where
  "fetch_apis ext config environment company [] st = (None, st)"
| "fetch_apis ext config environment company (api_name # rest) st =
     (case fetch_pair ext config environment company api_name st of
        (Some e, st') \<Rightarrow> (Some e, st')
      | (None, st') \<Rightarrow> fetch_apis ext config environment company rest st')"

fun fetch_companies ::
  "externals \<Rightarrow> config \<Rightarrow> pystr \<Rightarrow> pystr list \<Rightarrow> pystr list \<Rightarrow> fetch_state \<Rightarrow> exn option \<times> fetch_state" where
  "fetch_companies ext config environment [] apis st = (None, st)"
| "fetch_companies ext config environment (company # rest) apis st =
     (case fetch_apis ext config environment company apis st of
        (Some e, st') \<Rightarrow> (Some e, st')
      | (None, st') \<Rightarrow> fetch_companies ext config environment rest apis st')"

section \<open>The run\<close>

record summary_record =
  s_timestamp :: pystr
  s_org :: pystr
  s_env :: pystr
  s_environment_name :: pystr
  s_companies :: "pystr list"
  s_apis :: "pystr list"
  s_excel_file :: pystr
  s_created :: "pystr list"
  s_failed :: "pystr list"

text \<open>
  What a run leaves behind: the exception that ended it (if any), the state of the fetch
  loop (with the requests issued), the workbook written, the summary file saved (name and
  content) and the final status line.
\<close>

record run =
  raised :: "exn option"
  fetched :: fetch_state
  workbook :: "(pystr \<times> table) list option"
  summary_file :: "(pystr \<times> summary_record) option"
  status_line :: "pystr option"

text \<open>Lines 95 to 99: the body of the first \<^verbatim>\<open>try\<close>.\<close>

definition read_settings :: "config \<Rightarrow> exn + (pystr \<times> pystr list \<times> pystr list \<times> pystr)" where
  "read_settings config =
     (case subscript (business_central config) ''business-central'' of
        Inl e \<Rightarrow> Inl e
      | Inr bc \<Rightarrow>
     (case subscript (bc_environment_name bc) ''environment-name'' of
        Inl e \<Rightarrow> Inl e
      | Inr environment \<Rightarrow>
     (case subscript (bc_companies bc) ''companies'' of
        Inl e \<Rightarrow> Inl e
      | Inr cs \<Rightarrow>
     (case subscript (bc_apis bc) ''apis'' of
        Inl e \<Rightarrow> Inl e
      | Inr as \<Rightarrow>
     (case subscript (script_behavior config) ''script-behavior'' of
        Inl e \<Rightarrow> Inl e
      | Inr sb \<Rightarrow>
     (case subscript (excel_output_filename sb) ''excel-output-filename'' of
        Inl e \<Rightarrow> Inl e
      | Inr excel_filename \<Rightarrow> Inr (environment, cs, as, excel_filename)))))))"

definition aborted :: "exn \<Rightarrow> fetch_state \<Rightarrow> run" where
  "aborted e st =
     \<lparr>raised = Some e, fetched = st, workbook = None, summary_file = None, status_line = None\<rparr>"

text \<open>Lines 111 and 112: fresh results and no sheet; nothing has been requested.\<close>

definition initial_state :: fetch_state where
  "initial_state =
     \<lparr>results = \<lparr>created = [], updated = [], failed = [], expected_errors = 0\<rparr>,
      sheets = [], requests = []\<rparr>"

definition main :: "externals \<Rightarrow> config \<Rightarrow> run" where
  "main ext config =
     (let start = initial_state
      in case read_settings config of
           Inl (KeyError k) \<Rightarrow>
             aborted (ConfigurationError (lit ''Missing configuration key: '' @ repr_key k)) start
         | Inl e \<Rightarrow> aborted e start
         | Inr (environment, cs, as, excel_filename) \<Rightarrow>
             if cs = [] \<or> as = []
             then aborted (HelpfulError (lit ''No companies or APIs defined.'')) start
             else (case fetch_companies ext config environment cs as start of
                     (Some e, st) \<Rightarrow> aborted e st
                   | (None, st) \<Rightarrow>
                       (let output_path = get_path ext excel_filename
                        in if \<not> excel_write ext output_path (sheets st)
                           then aborted (FileOperationError
                                           (lit ''Failed to write Excel file: '' @ output_path)) st
                           else (let ts = utc_timestamp ext;
                                     saved = \<lparr>s_timestamp = ts, s_org = org_id config,
                                                s_env = env_type config,
                                                s_environment_name = environment,
                                                s_companies = cs, s_apis = as,
                                                s_excel_file = path_name ext excel_filename,
                                                s_created = created (results st),
                                                s_failed = failed (results st)\<rparr>
                                 in \<lparr>raised = None, fetched = st,
                                     workbook = Some (sheets st),
                                     summary_file = Some (lit ''bc-fetch-summary_'' @ ts @ lit ''.json'',
                                                          saved),
                                     status_line = Some (summary (results st))\<rparr>))))"

section \<open>Vocabulary of the specification\<close>

text \<open>
  A fetch pair is a company with a resource. Its label is the entry the run appends to
  the results, its sheet name the key under which its table is stored.
\<close>

type_synonym pair = "pystr \<times> pystr"

definition pair_label :: "pair \<Rightarrow> pystr" where
  "pair_label p = lit ''BusinessCentral/'' @ fst p @ lit ''/'' @ snd p"

definition sheet_name_of :: "pair \<Rightarrow> pystr" where
  "sheet_name_of p = safe_sheet_name (fst p @ lit ''__'' @ snd p)"

text \<open>The outcome of a pair, and the four reason categories of a failure.\<close>

datatype outcome = Succeeded | Failed pystr

definition reasons :: "pystr set" where
  "reasons = {lit ''auth failed'', lit ''timeout'', lit ''api error'', lit ''unexpected error''}"

text \<open>
  The outcome of the pair requested at \<open>url\<close> after the requests \<open>history\<close>: failed with
  the reason of the exception when the client raises, failed as unexpected when pandas
  rejects the row source, succeeded otherwise.
\<close>

definition pair_outcome :: "externals \<Rightarrow> pystr list \<Rightarrow> pystr \<Rightarrow> outcome" where
  "pair_outcome ext history url =
     (case api_get ext history url of
        Inl e \<Rightarrow> Failed (failure_reason e)
      | Inr payload \<Rightarrow>
          (case to_dataframe (pd_other ext) (normalize_records payload) of
             None \<Rightarrow> Failed (lit ''unexpected error'')
           | Some df \<Rightarrow> Succeeded))"

text \<open>
  What a list of pairs with their outcomes puts into the succeeded list, into the failed
  list, and which pairs succeeded.
\<close>

fun created_of :: "(pair \<times> outcome) list \<Rightarrow> pystr list" where
  "created_of [] = []"
| "created_of ((p, Succeeded) # rest) = pair_label p # created_of rest"
| "created_of ((p, Failed reason) # rest) = created_of rest"

fun failed_of :: "(pair \<times> outcome) list \<Rightarrow> pystr list" where
  "failed_of [] = []"
| "failed_of ((p, Succeeded) # rest) = failed_of rest"
| "failed_of ((p, Failed reason) # rest) = (pair_label p @ lit '': '' @ reason) # failed_of rest"

fun succeeded_pairs :: "(pair \<times> outcome) list \<Rightarrow> pair list" where
  "succeeded_pairs [] = []"
| "succeeded_pairs ((p, Succeeded) # rest) = p # succeeded_pairs rest"
| "succeeded_pairs ((p, Failed reason) # rest) = succeeded_pairs rest"

text \<open>
  Scanning a list of names in order, the number of names that were seen before: the
  number of collisions with an earlier, identical name.
\<close>

fun collisions :: "'a list \<Rightarrow> 'a list \<Rightarrow> nat" where
  "collisions seen [] = 0"
| "collisions seen (x # xs) = (if x \<in> set seen then 1 else 0) + collisions (x # seen) xs"

text \<open>The keys of a dictionary after assignments to the keys \<open>ns\<close>, in order.\<close>

fun add_keys :: "'a list \<Rightarrow> 'a list \<Rightarrow> 'a list" where
  "add_keys ks [] = ks"
| "add_keys ks (n # ns) = add_keys (if n \<in> set ks then ks else ks @ [n]) ns"

text \<open>The loop body run over a list of pairs, one after the other.\<close>

fun process ::
  "externals \<Rightarrow> config \<Rightarrow> pystr \<Rightarrow> pair list \<Rightarrow> fetch_state \<Rightarrow> exn option \<times> fetch_state" where
  "process ext config environment [] st = (None, st)"
| "process ext config environment (p # ps) st =
     (case fetch_pair ext config environment (fst p) (snd p) st of
        (Some e, st') \<Rightarrow> (Some e, st')
      | (None, st') \<Rightarrow> process ext config environment ps st')"

text \<open>
  How the results, the sheet names and the outcomes of a stretch of pairs relate the
  state before it to the state after it.
\<close>

definition effect :: "fetch_state \<Rightarrow> fetch_state \<Rightarrow> (pair \<times> outcome) list \<Rightarrow> bool" where
  "effect st st' pos \<longleftrightarrow>
     created (results st') = created (results st) @ created_of pos
   \<and> failed (results st') = failed (results st) @ failed_of pos
   \<and> updated (results st') = updated (results st)
   \<and> expected_errors (results st') = expected_errors (results st)
   \<and> map fst (sheets st') = add_keys (map fst (sheets st)) (map sheet_name_of (succeeded_pairs pos))
   \<and> (\<forall>out \<in> snd ` set pos. out = Succeeded \<or> (\<exists>r \<in> reasons. out = Failed r))"

text \<open>The conditions on a configuration that the claims speak of.\<close>

definition complete_global :: "config \<Rightarrow> bool" where
  "complete_global config =
     (case global config of
        None \<Rightarrow> False
      | Some g \<Rightarrow> api_base_url g \<noteq> None \<and> api_version g \<noteq> None \<and> tenant_id g \<noteq> None)"

definition configured :: "config \<Rightarrow> pystr \<Rightarrow> pystr list \<Rightarrow> pystr list \<Rightarrow> pystr \<Rightarrow> bool" where
  "configured config environment cs as excel_filename =
     (case business_central config of
        None \<Rightarrow> False
      | Some bc \<Rightarrow>
          (case script_behavior config of
             None \<Rightarrow> False
           | Some sb \<Rightarrow>
               bc_environment_name bc = Some environment \<and> bc_companies bc = Some cs
             \<and> bc_apis bc = Some as \<and> excel_output_filename sb = Some excel_filename))"

definition missing_setting :: "config \<Rightarrow> bool" where
  "missing_setting config =
     (case business_central config of
        None \<Rightarrow> True
      | Some bc \<Rightarrow>
          bc_environment_name bc = None \<or> bc_companies bc = None \<or> bc_apis bc = None
        \<or> (case script_behavior config of
              None \<Rightarrow> True
            | Some sb \<Rightarrow> excel_output_filename sb = None))"

definition empty_list :: "config \<Rightarrow> bool" where
  "empty_list config =
     (case business_central config of
        None \<Rightarrow> False
      | Some bc \<Rightarrow> bc_companies bc = Some [] \<or> bc_apis bc = Some [])"

section \<open>Example inputs\<close>

definition ex_config :: "pystr list \<Rightarrow> pystr list \<Rightarrow> config" where
  "ex_config cs as =
     \<lparr>business_central = Some \<lparr>bc_environment_name = Some (lit ''TestSE''),
                                bc_companies = Some cs, bc_apis = Some as\<rparr>,
      script_behavior = Some \<lparr>excel_output_filename = Some (lit ''bc.xlsx'')\<rparr>,
      global = Some \<lparr>api_base_url = Some (lit ''https://api.example.com/''),
                     api_version = Some (lit ''v2.0''), tenant_id = Some (lit ''t1'')\<rparr>,
      env_type = lit ''test'', org_id = lit ''txo''\<rparr>"

definition ex_externals :: "(pystr list \<Rightarrow> pystr \<Rightarrow> exn + json) \<Rightarrow> bool \<Rightarrow> externals" where
  "ex_externals get writes =
     \<lparr>api_get = get, pd_other = (\<lambda>records. None), excel_write = (\<lambda>path sheets. writes),
      get_path = (\<lambda>name. lit ''output/'' @ name), path_name = (\<lambda>name. name),
      utc_timestamp = lit ''20250101_120000Z''\<rparr>"

definition ex_payload :: json where
  "ex_payload = JDict [(lit ''value'', JList [JDict [(lit ''id'', JNum 1)], JDict [(lit ''id'', JNum 2)]])]"

section \<open>Evaluating a run\<close>

lemmas run_defs = main_def read_settings_def fetch_pair_def build_bc_url_def rstrip_def
  to_dataframe_def normalize_records_def dict_get_def from_records_def frame_of_dicts_def
  iloc_def safe_sheet_name_def invalid_def summary_def aborted_def initial_state_def
  ex_config_def ex_externals_def ex_payload_def Let_def

section \<open>Sheet name derivation\<close>

lemma safe_sheet_name_take:
  "safe_sheet_name s = take 31 (filter (\<lambda>ch. ch \<notin> invalid) s)"
  by (simp add: safe_sheet_name_def Let_def)

lemma invalid_chars:
  "invalid = {of_char CHR '':'', of_char CHR 0x5C, of_char CHR ''/'', of_char CHR ''?'',
              of_char CHR ''*'', of_char CHR ''['', of_char CHR '']''}"
  by (simp add: invalid_def)

text \<open>
  C3. For every string, \<open>safe_sheet_name\<close> returns the input with every occurrence of the
  characters \<^verbatim>\<open>: \ / ? * [ ]\<close> removed, cut to its first 31 characters. So the result has
  at most 31 characters, holds none of the seven characters, and is empty when the input
  consists of those characters only.
\<close>

theorem safe_sheet_name_spec:
  fixes s :: pystr
  defines "forbidden \<equiv> {of_char CHR '':'', of_char CHR 0x5C, of_char CHR ''/'', of_char CHR ''?'',
                         of_char CHR ''*'', of_char CHR ''['', of_char CHR '']''} :: nat set"
  shows "safe_sheet_name s = take 31 (filter (\<lambda>ch. ch \<notin> forbidden) s)
       \<and> length (safe_sheet_name s) \<le> 31
       \<and> set (safe_sheet_name s) \<inter> forbidden = {}
       \<and> (set s \<subseteq> forbidden \<longrightarrow> safe_sheet_name s = [])"
proof -
  have inv: "forbidden = invalid"
    unfolding forbidden_def by (simp only: invalid_chars)
  have eq: "safe_sheet_name s = take 31 (filter (\<lambda>ch. ch \<notin> forbidden) s)"
    unfolding inv by (rule safe_sheet_name_take)
  have len: "length (safe_sheet_name s) \<le> 31"
    unfolding eq by simp
  have "set (safe_sheet_name s) \<subseteq> set (filter (\<lambda>ch. ch \<notin> forbidden) s)"
    unfolding eq by (rule set_take_subset)
  then have clean: "set (safe_sheet_name s) \<inter> forbidden = {}"
    by auto
  have empty: "set s \<subseteq> forbidden \<longrightarrow> safe_sheet_name s = []"
  proof
    assume "set s \<subseteq> forbidden"
    then have "filter (\<lambda>ch. ch \<notin> forbidden) s = []"
      by (auto simp: filter_empty_conv)
    then show "safe_sheet_name s = []"
      unfolding eq by simp
  qed
  from eq len clean empty show ?thesis by blast
qed

theorem safe_sheet_name_spec_witness:
  "set (lit ''[*]?'') \<subseteq> {of_char CHR '':'', of_char CHR 0x5C, of_char CHR ''/'', of_char CHR ''?'',
                          of_char CHR ''*'', of_char CHR ''['', of_char CHR '']''}
   \<and> safe_sheet_name (lit ''[*]?'') = []"
  using safe_sheet_name_spec [of "lit ''[*]?''"] by simp

text \<open>
  C6. Sheet name derivation is idempotent: deriving the name of a derived name changes
  nothing.
\<close>

theorem safe_sheet_name_idempotent:
  "safe_sheet_name (safe_sheet_name s) = safe_sheet_name s"
proof -
  have "safe_sheet_name (safe_sheet_name s)
          = take 31 (filter (\<lambda>ch. ch \<notin> invalid) (take 31 (filter (\<lambda>ch. ch \<notin> invalid) s)))"
    by (simp only: safe_sheet_name_take)
  also have "filter (\<lambda>ch. ch \<notin> invalid) (take 31 (filter (\<lambda>ch. ch \<notin> invalid) s))
          = take 31 (filter (\<lambda>ch. ch \<notin> invalid) s)"
    by (rule filter_True) (auto dest: in_set_takeD)
  also have "take 31 (take 31 (filter (\<lambda>ch. ch \<notin> invalid) s)) = safe_sheet_name s"
    by (simp add: safe_sheet_name_take)
  finally show ?thesis .
qed

section \<open>The request URL\<close>

lemma rstrip_decompose:
  assumes "s = b @ replicate n c" and "b = [] \<or> last b \<noteq> c"
  shows "rstrip [c] s = b"
proof -
  have "rev s = replicate n c @ rev b"
    using assms(1) by simp
  moreover have "dropWhile (\<lambda>ch. ch \<in> set [c]) (replicate n c @ rev b)
                   = dropWhile (\<lambda>ch. ch \<in> set [c]) (rev b)"
    by (rule dropWhile_append2) simp
  moreover have "dropWhile (\<lambda>ch. ch \<in> set [c]) (rev b) = rev b"
    using assms(2) by (cases "rev b") (auto simp: last_rev [symmetric] hd_rev)
  ultimately show ?thesis
    by (simp add: rstrip_def)
qed

text \<open>
  C7. With the three keys of the \<^verbatim>\<open>global\<close> section present, the request URL is
  \<^verbatim>\<open>{base}/{version}/{tenant}/{environment}/ODataV4/Company('{company}')/{resource}\<close>,
  where \<open>base\<close> is the configured base URL without its trailing slashes: the configured
  value is \<open>b\<close> followed by any number of \<^verbatim>\<open>/\<close>, \<open>b\<close> not ending in one, and the URL
  starts with \<open>b\<close>.
\<close>

theorem build_bc_url_template:
  assumes "global config = Some g"
    and "api_base_url g = Some base" and "api_version g = Some version"
    and "tenant_id g = Some tenant"
    and "base = b @ replicate n (of_char CHR ''/'')"
    and "b = [] \<or> last b \<noteq> of_char CHR ''/''"
  shows "build_bc_url config environment company resource =
           Inr (b @ lit ''/'' @ version @ lit ''/'' @ tenant @ lit ''/'' @ environment
                @ lit ''/ODataV4/Company('' @ lit [CHR 0x27] @ company @ lit [CHR 0x27] @ lit '')/''
                @ resource)"
proof -
  have "rstrip (lit ''/'') base = b"
    using rstrip_decompose [OF assms(5) assms(6)] by simp
  then show ?thesis
    using assms(1-4) by (simp add: build_bc_url_def)
qed

theorem build_bc_url_template_witness:
  "global (ex_config [] []) = Some \<lparr>api_base_url = Some (lit ''https://api.example.com/''),
                     api_version = Some (lit ''v2.0''), tenant_id = Some (lit ''t1'')\<rparr>
   \<and> lit ''https://api.example.com/'' = lit ''https://api.example.com'' @ replicate 1 (of_char CHR ''/'')
   \<and> last (lit ''https://api.example.com'') \<noteq> of_char CHR ''/''
   \<and> build_bc_url (ex_config [] []) (lit ''TestSE'') (lit ''TXO'') (lit ''IntercompanyPartner'')
       = Inr (lit ''https://api.example.com/v2.0/t1/TestSE/ODataV4/Company('TXO')/IntercompanyPartner'')"
proof -
  have g: "global (ex_config [] []) = Some \<lparr>api_base_url = Some (lit ''https://api.example.com/''),
                     api_version = Some (lit ''v2.0''), tenant_id = Some (lit ''t1'')\<rparr>"
    by (simp add: ex_config_def)
  have d: "lit ''https://api.example.com/''
             = lit ''https://api.example.com'' @ replicate 1 (of_char CHR ''/'')"
    by simp
  have l: "lit ''https://api.example.com'' = []
             \<or> last (lit ''https://api.example.com'') \<noteq> of_char CHR ''/''"
    by simp
  have "build_bc_url (ex_config [] []) (lit ''TestSE'') (lit ''TXO'') (lit ''IntercompanyPartner'')
       = Inr (lit ''https://api.example.com/v2.0/t1/TestSE/ODataV4/Company('TXO')/IntercompanyPartner'')"
    using build_bc_url_template [OF g _ _ _ d l, of "lit ''v2.0''" "lit ''t1''" "lit ''TestSE''"
                                   "lit ''TXO''" "lit ''IntercompanyPartner''"]
    by simp
  with g d l show ?thesis by simp
qed

section \<open>The fetch loop, pair by pair\<close>

lemma process_append:
  "process ext config environment (ps @ qs) st =
     (case process ext config environment ps st of
        (Some e, st') \<Rightarrow> (Some e, st')
      | (None, st') \<Rightarrow> process ext config environment qs st')"
  by (induction ps arbitrary: st) (auto split: prod.splits option.splits)

lemma fetch_apis_process:
  "fetch_apis ext config environment company as st =
   process ext config environment (map (Pair company) as) st"
  by (induction as arbitrary: st) (auto split: prod.splits option.splits)

lemma fetch_companies_process:
  "fetch_companies ext config environment cs as st =
   process ext config environment (List.product cs as) st"
  by (induction cs arbitrary: st)
     (auto simp: process_append fetch_apis_process split: prod.splits option.splits)

lemma build_bc_url_complete:
  assumes "complete_global config"
  shows "\<exists>url. build_bc_url config environment company api_name = Inr url"
  using assms by (auto simp: complete_global_def build_bc_url_def split: option.splits)

lemma build_bc_url_incomplete:
  assumes "\<not> complete_global config"
  shows "\<exists>k. build_bc_url config environment company api_name = Inl (KeyError k)"
proof (cases "global config")
  case None
  then show ?thesis by (simp add: build_bc_url_def)
next
  case (Some g)
  with assms show ?thesis
    by (cases "api_base_url g"; cases "api_version g"; cases "tenant_id g")
       (simp_all add: complete_global_def build_bc_url_def)
qed

lemma map_fst_update:
  "map fst (AList.update k v al) = (if k \<in> set (map fst al) then map fst al else map fst al @ [k])"
  by (induction al) auto

lemma fetch_pair_raise:
  assumes "build_bc_url config environment company api_name = Inr url"
    and "api_get ext (requests st) url = Inl e"
  shows "fetch_pair ext config environment company api_name st =
     (None, st\<lparr>requests := requests st @ [url],
               results := (results st)\<lparr>failed := failed (results st) @
                 [lit ''BusinessCentral/'' @ company @ lit ''/'' @ api_name @ lit '': ''
                  @ failure_reason e]\<rparr>\<rparr>)"
  using assms by (simp add: fetch_pair_def Let_def)

lemma fetch_pair_pandas:
  assumes "build_bc_url config environment company api_name = Inr url"
    and "api_get ext (requests st) url = Inr payload"
    and "to_dataframe (pd_other ext) (normalize_records payload) = None"
  shows "fetch_pair ext config environment company api_name st =
     (None, st\<lparr>requests := requests st @ [url],
               results := (results st)\<lparr>failed := failed (results st) @
                 [lit ''BusinessCentral/'' @ company @ lit ''/'' @ api_name
                  @ lit '': unexpected error'']\<rparr>\<rparr>)"
  using assms by (simp add: fetch_pair_def Let_def)

lemma fetch_pair_ok:
  assumes "build_bc_url config environment company api_name = Inr url"
    and "api_get ext (requests st) url = Inr payload"
    and "to_dataframe (pd_other ext) (normalize_records payload) = Some df"
  shows "fetch_pair ext config environment company api_name st =
     (None, st\<lparr>requests := requests st @ [url],
               sheets := AList.update (safe_sheet_name (company @ lit ''__'' @ api_name)) df
                           (sheets st),
               results := (results st)\<lparr>created := created (results st) @
                 [lit ''BusinessCentral/'' @ company @ lit ''/'' @ api_name]\<rparr>\<rparr>)"
  using assms by (simp add: fetch_pair_def Let_def)

lemma failure_reason_in: "failure_reason e \<in> reasons"
  by (cases e) (simp_all add: reasons_def)

lemma fetch_pair_effect:
  assumes "build_bc_url config environment company api_name = Inr url"
  shows "\<exists>st' out. fetch_pair ext config environment company api_name st = (None, st')
          \<and> requests st' = requests st @ [url]
          \<and> effect st st' [((company, api_name), out)]"
proof (cases "api_get ext (requests st) url")
  case (Inl e)
  obtain st' where run: "fetch_pair ext config environment company api_name st = (None, st')"
    and st': "st' = st\<lparr>requests := requests st @ [url],
               results := (results st)\<lparr>failed := failed (results st) @
                 [lit ''BusinessCentral/'' @ company @ lit ''/'' @ api_name @ lit '': ''
                  @ failure_reason e]\<rparr>\<rparr>"
    using fetch_pair_raise [OF assms Inl] by simp
  have "effect st st' [((company, api_name), Failed (failure_reason e))]"
    unfolding st' by (simp add: effect_def pair_label_def failure_reason_in)
  moreover have "requests st' = requests st @ [url]"
    unfolding st' by simp
  ultimately show ?thesis using run by blast
next
  case (Inr payload)
  show ?thesis
  proof (cases "to_dataframe (pd_other ext) (normalize_records payload)")
    case None
    obtain st' where run: "fetch_pair ext config environment company api_name st = (None, st')"
      and st': "st' = st\<lparr>requests := requests st @ [url],
               results := (results st)\<lparr>failed := failed (results st) @
                 [lit ''BusinessCentral/'' @ company @ lit ''/'' @ api_name
                  @ lit '': unexpected error'']\<rparr>\<rparr>"
      using fetch_pair_pandas [OF assms Inr None] by simp
    have "effect st st' [((company, api_name), Failed (lit ''unexpected error''))]"
      unfolding st' by (simp add: effect_def pair_label_def reasons_def)
    moreover have "requests st' = requests st @ [url]"
      unfolding st' by simp
    ultimately show ?thesis using run by blast
  next
    case (Some df)
    obtain st' where run: "fetch_pair ext config environment company api_name st = (None, st')"
      and st': "st' = st\<lparr>requests := requests st @ [url],
               sheets := AList.update (safe_sheet_name (company @ lit ''__'' @ api_name)) df
                           (sheets st),
               results := (results st)\<lparr>created := created (results st) @
                 [lit ''BusinessCentral/'' @ company @ lit ''/'' @ api_name]\<rparr>\<rparr>"
      using fetch_pair_ok [OF assms Inr Some] by simp
    have "effect st st' [((company, api_name), Succeeded)]"
      unfolding st' by (simp add: effect_def pair_label_def sheet_name_of_def map_fst_update)
    moreover have "requests st' = requests st @ [url]"
      unfolding st' by simp
    ultimately show ?thesis using run by blast
  qed
qed

lemma created_of_append: "created_of (xs @ ys) = created_of xs @ created_of ys"
  by (induction xs rule: created_of.induct) auto

lemma failed_of_append: "failed_of (xs @ ys) = failed_of xs @ failed_of ys"
  by (induction xs rule: failed_of.induct) auto

lemma succeeded_pairs_append:
  "succeeded_pairs (xs @ ys) = succeeded_pairs xs @ succeeded_pairs ys"
  by (induction xs rule: succeeded_pairs.induct) auto

lemma add_keys_append: "add_keys ks (ms @ ns) = add_keys (add_keys ks ms) ns"
  by (induction ms arbitrary: ks) auto

lemma length_created_failed: "length (created_of xs) + length (failed_of xs) = length xs"
  by (induction xs rule: created_of.induct) auto

lemma length_created_of: "length (created_of xs) = length (succeeded_pairs xs)"
  by (induction xs rule: created_of.induct) auto

lemma effect_trans:
  assumes "effect st st' xs" and "effect st' st'' ys"
  shows "effect st st'' (xs @ ys)"
  using assms
  by (auto simp: effect_def created_of_append failed_of_append succeeded_pairs_append
                 add_keys_append)

lemma effect_refl: "effect st st []"
  by (simp add: effect_def)

lemma process_effect:
  assumes "complete_global config"
  shows "\<exists>st' outs. process ext config environment ps st = (None, st')
          \<and> length outs = length ps
          \<and> map Inr (requests st') = map Inr (requests st)
                @ map (\<lambda>p. build_bc_url config environment (fst p) (snd p)) ps
          \<and> effect st st' (zip ps outs)"
proof (induction ps arbitrary: st)
  case Nil
  show ?case by (simp add: effect_refl)
next
  case (Cons p ps)
  obtain url where url: "build_bc_url config environment (fst p) (snd p) = Inr url"
    using build_bc_url_complete [OF assms] by blast
  obtain st1 o1 where step: "fetch_pair ext config environment (fst p) (snd p) st = (None, st1)"
      and req1: "requests st1 = requests st @ [url]"
      and eff1: "effect st st1 [((fst p, snd p), o1)]"
    using fetch_pair_effect [OF url] by blast
  obtain st' outs where rest: "process ext config environment ps st1 = (None, st')"
      and len: "length outs = length ps"
      and req: "map Inr (requests st') = map Inr (requests st1)
                  @ map (\<lambda>p. build_bc_url config environment (fst p) (snd p)) ps"
      and eff: "effect st1 st' (zip ps outs)"
    using Cons.IH by blast
  have "effect st st' ([(p, o1)] @ zip ps outs)"
    using effect_trans [OF eff1 eff] by simp
  then have "effect st st' (zip (p # ps) (o1 # outs))"
    by simp
  moreover have "process ext config environment (p # ps) st = (None, st')"
    using step rest by simp
  moreover have "length (o1 # outs) = length (p # ps)"
    using len by simp
  moreover have "map Inr (requests st') = map Inr (requests st)
                  @ map (\<lambda>p. build_bc_url config environment (fst p) (snd p)) (p # ps)"
    using req req1 url by simp
  ultimately show ?case by blast
qed

lemma add_keys_distinct: "distinct ks \<Longrightarrow> distinct (add_keys ks ns)"
  by (induction ns arbitrary: ks) auto

lemma add_keys_set: "set (add_keys ks ns) = set ks \<union> set ns"
  by (induction ns arbitrary: ks) auto

lemma collisions_card:
  "card (set seen \<union> set xs) + collisions seen xs = card (set seen) + length xs"
proof (induction xs arbitrary: seen)
  case Nil
  show ?case by simp
next
  case (Cons x xs)
  have "set (x # seen) \<union> set xs = set seen \<union> set (x # xs)"
    by auto
  with Cons [of "x # seen"] show ?case
    by (auto simp: card_insert_if insert_absorb)
qed

lemma length_add_keys: "length (add_keys [] ns) + collisions [] ns = length ns"
proof -
  have "length (add_keys [] ns) = card (set ns)"
    using add_keys_distinct [of "[]" ns] add_keys_set [of "[]" ns] distinct_card by fastforce
  with collisions_card [of "[]" ns] show ?thesis by simp
qed

lemma loop_outcomes:
  assumes "complete_global config"
  shows "\<exists>st' outs. fetch_companies ext config environment cs as initial_state = (None, st')
          \<and> length outs = length (List.product cs as)
          \<and> map Inr (requests st')
               = map (\<lambda>p. build_bc_url config environment (fst p) (snd p)) (List.product cs as)
          \<and> created (results st') = created_of (zip (List.product cs as) outs)
          \<and> failed (results st') = failed_of (zip (List.product cs as) outs)
          \<and> map fst (sheets st')
               = add_keys [] (map sheet_name_of (succeeded_pairs (zip (List.product cs as) outs)))"
proof -
  obtain st' outs where run: "process ext config environment (List.product cs as) initial_state = (None, st')"
    and len: "length outs = length (List.product cs as)"
    and req: "map Inr (requests st') = map Inr (requests initial_state)
                @ map (\<lambda>p. build_bc_url config environment (fst p) (snd p)) (List.product cs as)"
    and eff: "effect initial_state st' (zip (List.product cs as) outs)"
    using process_effect [OF assms] by blast
  from eff have "created (results st') = created_of (zip (List.product cs as) outs)"
    and "failed (results st') = failed_of (zip (List.product cs as) outs)"
    and "map fst (sheets st')
           = add_keys [] (map sheet_name_of (succeeded_pairs (zip (List.product cs as) outs)))"
    by (simp_all add: effect_def initial_state_def)
  moreover from req have "map Inr (requests st')
      = map (\<lambda>p. build_bc_url config environment (fst p) (snd p)) (List.product cs as)"
    by (simp add: initial_state_def)
  ultimately show ?thesis
    using run len by (auto simp: fetch_companies_process)
qed

lemma fetch_pair_outcome:
  assumes "build_bc_url config environment company api_name = Inr url"
  shows "\<exists>st'. fetch_pair ext config environment company api_name st = (None, st')
          \<and> requests st' = requests st @ [url]
          \<and> effect st st' [((company, api_name), pair_outcome ext (requests st) url)]"
proof (cases "api_get ext (requests st) url")
  case (Inl e)
  obtain st' where run: "fetch_pair ext config environment company api_name st = (None, st')"
    and st': "st' = st\<lparr>requests := requests st @ [url],
               results := (results st)\<lparr>failed := failed (results st) @
                 [lit ''BusinessCentral/'' @ company @ lit ''/'' @ api_name @ lit '': ''
                  @ failure_reason e]\<rparr>\<rparr>"
    using fetch_pair_raise [OF assms Inl] by simp
  have out: "pair_outcome ext (requests st) url = Failed (failure_reason e)"
    by (simp add: pair_outcome_def Inl)
  have "effect st st' [((company, api_name), pair_outcome ext (requests st) url)]"
    unfolding st' out by (simp add: effect_def pair_label_def failure_reason_in)
  moreover have "requests st' = requests st @ [url]"
    unfolding st' by simp
  ultimately show ?thesis using run by blast
next
  case (Inr payload)
  show ?thesis
  proof (cases "to_dataframe (pd_other ext) (normalize_records payload)")
    case None
    obtain st' where run: "fetch_pair ext config environment company api_name st = (None, st')"
      and st': "st' = st\<lparr>requests := requests st @ [url],
               results := (results st)\<lparr>failed := failed (results st) @
                 [lit ''BusinessCentral/'' @ company @ lit ''/'' @ api_name
                  @ lit '': unexpected error'']\<rparr>\<rparr>"
      using fetch_pair_pandas [OF assms Inr None] by simp
    have out: "pair_outcome ext (requests st) url = Failed (lit ''unexpected error'')"
      by (simp add: pair_outcome_def Inr None)
    have "effect st st' [((company, api_name), pair_outcome ext (requests st) url)]"
      unfolding st' out by (simp add: effect_def pair_label_def reasons_def)
    moreover have "requests st' = requests st @ [url]"
      unfolding st' by simp
    ultimately show ?thesis using run by blast
  next
    case (Some df)
    obtain st' where run: "fetch_pair ext config environment company api_name st = (None, st')"
      and st': "st' = st\<lparr>requests := requests st @ [url],
               sheets := AList.update (safe_sheet_name (company @ lit ''__'' @ api_name)) df
                           (sheets st),
               results := (results st)\<lparr>created := created (results st) @
                 [lit ''BusinessCentral/'' @ company @ lit ''/'' @ api_name]\<rparr>\<rparr>"
      using fetch_pair_ok [OF assms Inr Some] by simp
    have out: "pair_outcome ext (requests st) url = Succeeded"
      by (simp add: pair_outcome_def Inr Some)
    have "effect st st' [((company, api_name), pair_outcome ext (requests st) url)]"
      unfolding st' out by (simp add: effect_def pair_label_def sheet_name_of_def map_fst_update)
    moreover have "requests st' = requests st @ [url]"
      unfolding st' by simp
    ultimately show ?thesis using run by blast
  qed
qed

lemma process_outcomes:
  assumes "complete_global config"
  shows "\<exists>st' urls outs. process ext config environment ps st = (None, st')
          \<and> map Inr urls = map (\<lambda>p. build_bc_url config environment (fst p) (snd p)) ps
          \<and> requests st' = requests st @ urls
          \<and> length outs = length ps
          \<and> (\<forall>i < length ps. outs ! i
                 = pair_outcome ext (requests st @ take i urls) (urls ! i))
          \<and> effect st st' (zip ps outs)"
proof (induction ps arbitrary: st)
  case Nil
  show ?case by (simp add: effect_refl)
next
  case (Cons p ps)
  obtain url where url: "build_bc_url config environment (fst p) (snd p) = Inr url"
    using build_bc_url_complete [OF assms] by blast
  obtain st1 where step: "fetch_pair ext config environment (fst p) (snd p) st = (None, st1)"
      and req1: "requests st1 = requests st @ [url]"
      and eff1: "effect st st1 [((fst p, snd p), pair_outcome ext (requests st) url)]"
    using fetch_pair_outcome [OF url] by blast
  obtain st' urls outs where rest: "process ext config environment ps st1 = (None, st')"
      and us: "map Inr urls = map (\<lambda>p. build_bc_url config environment (fst p) (snd p)) ps"
      and req: "requests st' = requests st1 @ urls"
      and len: "length outs = length ps"
      and each: "\<forall>i < length ps. outs ! i
                   = pair_outcome ext (requests st1 @ take i urls) (urls ! i)"
      and eff: "effect st1 st' (zip ps outs)"
    using Cons.IH by blast
  let ?o1 = "pair_outcome ext (requests st) url"
  have "effect st st' ([(p, ?o1)] @ zip ps outs)"
    using effect_trans [OF eff1 eff] by simp
  then have e: "effect st st' (zip (p # ps) (?o1 # outs))"
    by simp
  have r: "process ext config environment (p # ps) st = (None, st')"
    using step rest by simp
  have l: "length (?o1 # outs) = length (p # ps)"
    using len by simp
  have u: "map Inr (url # urls)
             = map (\<lambda>p. build_bc_url config environment (fst p) (snd p)) (p # ps)"
    using us url by simp
  have q: "requests st' = requests st @ (url # urls)"
    using req req1 by simp
  have a: "\<forall>i < length (p # ps). (?o1 # outs) ! i
             = pair_outcome ext (requests st @ take i (url # urls)) ((url # urls) ! i)"
  proof (intro allI impI)
    fix i assume i: "i < length (p # ps)"
    show "(?o1 # outs) ! i
             = pair_outcome ext (requests st @ take i (url # urls)) ((url # urls) ! i)"
    proof (cases i)
      case 0
      then show ?thesis by simp
    next
      case (Suc j)
      with i have "j < length ps" by simp
      with each have "outs ! j = pair_outcome ext (requests st1 @ take j urls) (urls ! j)"
        by blast
      then show ?thesis
        using Suc req1 by simp
    qed
  qed
  from r u q l a e show ?case by blast
qed

lemma failure_reason_cases:
  "failure_reason e =
      (case e of
         ApiAuthenticationError \<Rightarrow> lit ''auth failed''
       | ApiTimeoutError \<Rightarrow> lit ''timeout''
       | ApiError \<Rightarrow> lit ''api error''
       | _ \<Rightarrow> lit ''unexpected error'')"
  by (cases e) simp_all

lemma pair_outcome_cases:
  "pair_outcome ext history url =
     (case api_get ext history url of
        Inl e \<Rightarrow>
          Failed (case e of
                    ApiAuthenticationError \<Rightarrow> lit ''auth failed''
                  | ApiTimeoutError \<Rightarrow> lit ''timeout''
                  | ApiError \<Rightarrow> lit ''api error''
                  | _ \<Rightarrow> lit ''unexpected error'')
      | Inr payload \<Rightarrow>
          (case to_dataframe (pd_other ext) (normalize_records payload) of
             None \<Rightarrow> Failed (lit ''unexpected error'')
           | Some df \<Rightarrow> Succeeded))"
  by (cases "api_get ext history url") (simp_all add: pair_outcome_def failure_reason_cases)

text \<open>
  C1. While the three keys of the \<^verbatim>\<open>global\<close> section are present: when the client's get
  raises for a pair, be it an authentication error, a timeout, another API error or any
  other exception, the loop body appends the pair's label with the matching reason
  (\<^verbatim>\<open>auth failed\<close>, \<^verbatim>\<open>timeout\<close>, \<^verbatim>\<open>api error\<close>, \<^verbatim>\<open>unexpected error\<close>) to the failed list,
  leaves the sheets and the created list as they were and raises nothing. And the loop
  requests every pair of the cartesian product, in order, and gives each pair the outcome
  of its own reply, whatever happened to the pairs before it: failed with the matching
  reason when its get raises, failed as unexpected when pandas rejects its rows,
  succeeded otherwise. The failed list grows by the entries of the failed pairs, the
  created list by the labels of the succeeded pairs, and only succeeded pairs add a
  sheet name.
\<close>

theorem failed_pair_is_recorded:
  assumes "complete_global config"
  shows "(\<forall>company api_name st url e.
            build_bc_url config environment company api_name = Inr url \<longrightarrow>
            api_get ext (requests st) url = Inl e \<longrightarrow>
            fetch_pair ext config environment company api_name st =
              (None, st\<lparr>requests := requests st @ [url],
                        results := (results st)\<lparr>failed := failed (results st) @
                          [lit ''BusinessCentral/'' @ company @ lit ''/'' @ api_name @ lit '': '' @
                           (case e of
                              ApiAuthenticationError \<Rightarrow> lit ''auth failed''
                            | ApiTimeoutError \<Rightarrow> lit ''timeout''
                            | ApiError \<Rightarrow> lit ''api error''
                            | _ \<Rightarrow> lit ''unexpected error'')]\<rparr>\<rparr>))
       \<and> (\<exists>st' urls outs.
              fetch_companies ext config environment cs as st0 = (None, st')
            \<and> map Inr urls
                = map (\<lambda>p. build_bc_url config environment (fst p) (snd p)) (List.product cs as)
            \<and> requests st' = requests st0 @ urls
            \<and> length outs = length (List.product cs as)
            \<and> (\<forall>i < length (List.product cs as). outs ! i =
                  (case api_get ext (requests st0 @ take i urls) (urls ! i) of
                     Inl e \<Rightarrow>
                       Failed (case e of
                                 ApiAuthenticationError \<Rightarrow> lit ''auth failed''
                               | ApiTimeoutError \<Rightarrow> lit ''timeout''
                               | ApiError \<Rightarrow> lit ''api error''
                               | _ \<Rightarrow> lit ''unexpected error'')
                   | Inr payload \<Rightarrow>
                       (case to_dataframe (pd_other ext) (normalize_records payload) of
                          None \<Rightarrow> Failed (lit ''unexpected error'')
                        | Some df \<Rightarrow> Succeeded)))
            \<and> created (results st')
                = created (results st0) @ created_of (zip (List.product cs as) outs)
            \<and> failed (results st')
                = failed (results st0) @ failed_of (zip (List.product cs as) outs)
            \<and> map fst (sheets st')
                = add_keys (map fst (sheets st0))
                    (map sheet_name_of (succeeded_pairs (zip (List.product cs as) outs))))"
proof -
  have step: "\<forall>company api_name st url e.
            build_bc_url config environment company api_name = Inr url \<longrightarrow>
            api_get ext (requests st) url = Inl e \<longrightarrow>
            fetch_pair ext config environment company api_name st =
              (None, st\<lparr>requests := requests st @ [url],
                        results := (results st)\<lparr>failed := failed (results st) @
                          [lit ''BusinessCentral/'' @ company @ lit ''/'' @ api_name @ lit '': '' @
                           (case e of
                              ApiAuthenticationError \<Rightarrow> lit ''auth failed''
                            | ApiTimeoutError \<Rightarrow> lit ''timeout''
                            | ApiError \<Rightarrow> lit ''api error''
                            | _ \<Rightarrow> lit ''unexpected error'')]\<rparr>\<rparr>)"
    using fetch_pair_raise by (simp add: failure_reason_cases)
  obtain st' urls outs
    where run: "process ext config environment (List.product cs as) st0 = (None, st')"
      and us: "map Inr urls
                = map (\<lambda>p. build_bc_url config environment (fst p) (snd p)) (List.product cs as)"
      and req: "requests st' = requests st0 @ urls"
      and len: "length outs = length (List.product cs as)"
      and each: "\<forall>i < length (List.product cs as). outs ! i
                   = pair_outcome ext (requests st0 @ take i urls) (urls ! i)"
      and eff: "effect st0 st' (zip (List.product cs as) outs)"
    using process_outcomes [OF assms] by blast
  have loop: "fetch_companies ext config environment cs as st0 = (None, st')"
    using run by (simp add: fetch_companies_process)
  have each': "\<forall>i < length (List.product cs as). outs ! i =
                  (case api_get ext (requests st0 @ take i urls) (urls ! i) of
                     Inl e \<Rightarrow>
                       Failed (case e of
                                 ApiAuthenticationError \<Rightarrow> lit ''auth failed''
                               | ApiTimeoutError \<Rightarrow> lit ''timeout''
                               | ApiError \<Rightarrow> lit ''api error''
                               | _ \<Rightarrow> lit ''unexpected error'')
                   | Inr payload \<Rightarrow>
                       (case to_dataframe (pd_other ext) (normalize_records payload) of
                          None \<Rightarrow> Failed (lit ''unexpected error'')
                        | Some df \<Rightarrow> Succeeded))"
    using each unfolding pair_outcome_cases .
  from eff have c: "created (results st')
                = created (results st0) @ created_of (zip (List.product cs as) outs)"
    and f: "failed (results st')
                = failed (results st0) @ failed_of (zip (List.product cs as) outs)"
    and k: "map fst (sheets st')
                = add_keys (map fst (sheets st0))
                    (map sheet_name_of (succeeded_pairs (zip (List.product cs as) outs)))"
    by (simp_all add: effect_def)
  from step loop us req len each' c f k show ?thesis by blast
qed

theorem failed_pair_is_recorded_witness:
  "complete_global (ex_config [lit ''A'', lit ''B''] [lit ''X''])
 \<and> fetch_pair (ex_externals (\<lambda>history url. if history = [] then Inl ApiTimeoutError
                                               else Inr ex_payload) True)
      (ex_config [lit ''A'', lit ''B''] [lit ''X'']) (lit ''TestSE'') (lit ''A'') (lit ''X'')
      initial_state
    = (None, initial_state
         \<lparr>requests := [lit ''https://api.example.com/v2.0/t1/TestSE/ODataV4/Company('A')/X''],
          results := (results initial_state)\<lparr>failed := [lit ''BusinessCentral/A/X: timeout'']\<rparr>\<rparr>)
 \<and> (\<exists>st'. fetch_companies (ex_externals (\<lambda>history url. if history = [] then Inl ApiTimeoutError
                                               else Inr ex_payload) True)
            (ex_config [lit ''A'', lit ''B''] [lit ''X'']) (lit ''TestSE'')
            [lit ''A'', lit ''B''] [lit ''X''] initial_state = (None, st')
        \<and> requests st' = [lit ''https://api.example.com/v2.0/t1/TestSE/ODataV4/Company('A')/X'',
                          lit ''https://api.example.com/v2.0/t1/TestSE/ODataV4/Company('B')/X'']
        \<and> created (results st') = [lit ''BusinessCentral/B/X'']
        \<and> failed (results st') = [lit ''BusinessCentral/A/X: timeout'']
        \<and> map fst (sheets st') = [lit ''B__X''])"
proof -
  let ?ext = "ex_externals (\<lambda>history url. if history = [] then Inl ApiTimeoutError
                                               else Inr ex_payload) True"
  let ?cfg = "ex_config [lit ''A'', lit ''B''] [lit ''X'']"
  let ?ua = "lit ''https://api.example.com/v2.0/t1/TestSE/ODataV4/Company('A')/X''"
  let ?ub = "lit ''https://api.example.com/v2.0/t1/TestSE/ODataV4/Company('B')/X''"
  have g: "complete_global ?cfg"
    by (simp add: complete_global_def ex_config_def)
  note t = failed_pair_is_recorded [OF g, where ext = ?ext and environment = "lit ''TestSE''"
             and cs = "[lit ''A'', lit ''B'']" and as = "[lit ''X'']" and ?st0.0 = initial_state]
  have u: "build_bc_url ?cfg (lit ''TestSE'') (lit ''A'') (lit ''X'') = Inr ?ua"
    by (simp add: build_bc_url_def ex_config_def rstrip_def)
  have u2: "build_bc_url ?cfg (lit ''TestSE'') (lit ''B'') (lit ''X'') = Inr ?ub"
    by (simp add: build_bc_url_def ex_config_def rstrip_def)
  have r: "api_get ?ext (requests initial_state) ?ua = Inl ApiTimeoutError"
    by (simp add: ex_externals_def initial_state_def)
  from t u r have "fetch_pair ?ext ?cfg (lit ''TestSE'') (lit ''A'') (lit ''X'') initial_state
    = (None, initial_state\<lparr>requests := requests initial_state @ [?ua],
          results := (results initial_state)\<lparr>failed := failed (results initial_state) @
             [lit ''BusinessCentral/'' @ lit ''A'' @ lit ''/'' @ lit ''X'' @ lit '': '' @
                           (case ApiTimeoutError of
                              ApiAuthenticationError \<Rightarrow> lit ''auth failed''
                            | ApiTimeoutError \<Rightarrow> lit ''timeout''
                            | ApiError \<Rightarrow> lit ''api error''
                            | _ \<Rightarrow> lit ''unexpected error'')]\<rparr>\<rparr>)"
    by blast
  then have step: "fetch_pair ?ext ?cfg (lit ''TestSE'') (lit ''A'') (lit ''X'') initial_state
    = (None, initial_state\<lparr>requests := [?ua],
          results := (results initial_state)\<lparr>failed := [lit ''BusinessCentral/A/X: timeout'']\<rparr>\<rparr>)"
    by (simp add: initial_state_def)
  from t obtain st' urls outs
    where loop: "fetch_companies ?ext ?cfg (lit ''TestSE'') [lit ''A'', lit ''B''] [lit ''X'']
                   initial_state = (None, st')"
      and us: "map Inr urls = map (\<lambda>p. build_bc_url ?cfg (lit ''TestSE'') (fst p) (snd p))
                                 (List.product [lit ''A'', lit ''B''] [lit ''X''])"
      and req: "requests st' = requests initial_state @ urls"
      and len: "length outs = length (List.product [lit ''A'', lit ''B''] [lit ''X''])"
      and each: "\<forall>i < length (List.product [lit ''A'', lit ''B''] [lit ''X'']). outs ! i =
                  (case api_get ?ext (requests initial_state @ take i urls) (urls ! i) of
                     Inl e \<Rightarrow>
                       Failed (case e of
                                 ApiAuthenticationError \<Rightarrow> lit ''auth failed''
                               | ApiTimeoutError \<Rightarrow> lit ''timeout''
                               | ApiError \<Rightarrow> lit ''api error''
                               | _ \<Rightarrow> lit ''unexpected error'')
                   | Inr payload \<Rightarrow>
                       (case to_dataframe (pd_other ?ext) (normalize_records payload) of
                          None \<Rightarrow> Failed (lit ''unexpected error'')
                        | Some df \<Rightarrow> Succeeded))"
      and c: "created (results st') = created (results initial_state)
                @ created_of (zip (List.product [lit ''A'', lit ''B''] [lit ''X'']) outs)"
      and f: "failed (results st') = failed (results initial_state)
                @ failed_of (zip (List.product [lit ''A'', lit ''B''] [lit ''X'']) outs)"
      and k: "map fst (sheets st') = add_keys (map fst (sheets initial_state))
                (map sheet_name_of (succeeded_pairs
                   (zip (List.product [lit ''A'', lit ''B''] [lit ''X'']) outs)))"
    by blast
  have urls: "urls = [?ua, ?ub]"
    using us u u2 by (auto simp: map_eq_Cons_conv)
  have l2: "length outs = 2"
    using len by simp
  have o0: "outs ! 0 = Failed (lit ''timeout'')"
    using each [rule_format, of 0] by (simp add: urls ex_externals_def initial_state_def)
  have o1: "outs ! 1 = Succeeded"
    using each [rule_format, of 1]
    by (simp add: urls ex_externals_def initial_state_def ex_payload_def to_dataframe_def
                  normalize_records_def dict_get_def from_records_def frame_of_dicts_def)
  have outs: "outs = [Failed (lit ''timeout''), Succeeded]"
  proof -
    obtain a b where "outs = [a, b]"
      using l2 by (cases outs; cases "tl outs") auto
    with o0 o1 show ?thesis by simp
  qed
  have r1: "requests st' = [?ua, ?ub]"
    using req urls by (simp add: initial_state_def)
  have r2: "created (results st') = [lit ''BusinessCentral/B/X'']"
    using c by (simp add: outs initial_state_def pair_label_def)
  have r3: "failed (results st') = [lit ''BusinessCentral/A/X: timeout'']"
    using f by (simp add: outs initial_state_def pair_label_def)
  have r4: "map fst (sheets st') = [lit ''B__X'']"
    using k by (simp add: outs initial_state_def sheet_name_of_def safe_sheet_name_def invalid_def)
  have ex: "\<exists>st'. fetch_companies ?ext ?cfg (lit ''TestSE'') [lit ''A'', lit ''B'']
            [lit ''X''] initial_state = (None, st')
        \<and> requests st' = [?ua, ?ub]
        \<and> created (results st') = [lit ''BusinessCentral/B/X'']
        \<and> failed (results st') = [lit ''BusinessCentral/A/X: timeout'']
        \<and> map fst (sheets st') = [lit ''B__X'']"
    by (rule exI [of _ st']) (intro conjI loop r1 r2 r3 r4)
  show ?thesis
    by (intro conjI g step ex)
qed

text \<open>
  C2. While the three keys of the \<^verbatim>\<open>global\<close> section are present, the loop ends, and at
  its end every pair of the cartesian product has exactly one outcome: there is one
  outcome per pair, in order, such that the created list holds the labels of the pairs
  that succeeded and the failed list the labels, with their reasons, of the pairs that
  failed. So the two lists together have as many entries as there are pairs.
\<close>

theorem every_pair_in_exactly_one_list:
  assumes "complete_global config"
  shows "\<exists>st' outs. fetch_companies ext config environment cs as initial_state = (None, st')
        \<and> length outs = length (List.product cs as)
        \<and> created (results st') = created_of (zip (List.product cs as) outs)
        \<and> failed (results st') = failed_of (zip (List.product cs as) outs)
        \<and> length (created (results st')) + length (failed (results st')) = length cs * length as"
proof -
  obtain st' outs where run: "fetch_companies ext config environment cs as initial_state = (None, st')"
    and len: "length outs = length (List.product cs as)"
    and c: "created (results st') = created_of (zip (List.product cs as) outs)"
    and f: "failed (results st') = failed_of (zip (List.product cs as) outs)"
    using loop_outcomes [OF assms] by blast
  have "length (created (results st')) + length (failed (results st')) = length cs * length as"
    unfolding c f length_created_failed using len by simp
  with run len c f show ?thesis by blast
qed

theorem every_pair_in_exactly_one_list_witness:
  "complete_global (ex_config [lit ''A'', lit ''B''] [lit ''X''])
 \<and> (\<exists>st' outs.
       fetch_companies (ex_externals (\<lambda>history url. if history = [] then Inl ApiTimeoutError
                                                     else Inr ex_payload) True)
         (ex_config [lit ''A'', lit ''B''] [lit ''X'']) (lit ''TestSE'')
         [lit ''A'', lit ''B''] [lit ''X''] initial_state = (None, st')
     \<and> length outs = length (List.product [lit ''A'', lit ''B''] [lit ''X''])
     \<and> created (results st')
         = created_of (zip (List.product [lit ''A'', lit ''B''] [lit ''X'']) outs)
     \<and> failed (results st')
         = failed_of (zip (List.product [lit ''A'', lit ''B''] [lit ''X'']) outs)
     \<and> length (created (results st')) + length (failed (results st'))
         = length [lit ''A'', lit ''B''] * length [lit ''X''])"
proof -
  have g: "complete_global (ex_config [lit ''A'', lit ''B''] [lit ''X''])"
    by (simp add: complete_global_def ex_config_def)
  from every_pair_in_exactly_one_list [OF g] g show ?thesis
    by blast
qed

section \<open>The row source and the placeholder table\<close>

lemma to_dataframe_empty:
  "\<not> truthy records \<Longrightarrow> to_dataframe pd records = Some \<lparr>columns = [lit ''_no_rows''], rows = []\<rparr>"
  by (simp add: to_dataframe_def iloc_def frame_of_dicts_def)

text \<open>
  The row source of a body, case by case: the value stored under \<^verbatim>\<open>value\<close>, whatever its
  type, when the body is a dictionary with a value other than \<^verbatim>\<open>None\<close> there; the body
  itself when it is a list; the empty list in every other case. When the row source is
  empty (falsy), the table is the placeholder, one column \<^verbatim>\<open>_no_rows\<close> and no row, and the
  loop body stores it as the pair's sheet and counts the pair as created.
\<close>

theorem normalizer_and_placeholder:
  "(\<forall>kvs v. payload = JDict kvs \<longrightarrow> map_of kvs (lit ''value'') = Some v \<longrightarrow> v \<noteq> JNull \<longrightarrow>
       normalize_records payload = v)
 \<and> (\<forall>xs. payload = JList xs \<longrightarrow> normalize_records payload = JList xs)
 \<and> ((\<forall>xs. payload \<noteq> JList xs) \<longrightarrow>
    (\<forall>kvs v. payload = JDict kvs \<longrightarrow> map_of kvs (lit ''value'') = Some v \<longrightarrow> v = JNull) \<longrightarrow>
       normalize_records payload = JList [])
 \<and> (\<not> truthy (normalize_records payload) \<longrightarrow>
       to_dataframe pd (normalize_records payload)
         = Some \<lparr>columns = [lit ''_no_rows''], rows = []\<rparr>)
 \<and> (\<forall>url (st :: fetch_state). build_bc_url config environment company api_name = Inr url \<longrightarrow>
       api_get ext (requests st) url = Inr payload \<longrightarrow>
       \<not> truthy (normalize_records payload) \<longrightarrow>
       (\<exists>st'. fetch_pair ext config environment company api_name st = (None, st')
            \<and> map_of (sheets st') (safe_sheet_name (company @ lit ''__'' @ api_name))
                = Some \<lparr>columns = [lit ''_no_rows''], rows = []\<rparr>
            \<and> created (results st') = created (results st)
                @ [lit ''BusinessCentral/'' @ company @ lit ''/'' @ api_name]
            \<and> failed (results st') = failed (results st)))"
proof -
  have a: "\<forall>kvs v. payload = JDict kvs \<longrightarrow> map_of kvs (lit ''value'') = Some v \<longrightarrow> v \<noteq> JNull \<longrightarrow>
       normalize_records payload = v"
    by (simp add: normalize_records_def dict_get_def)
  have b: "\<forall>xs. payload = JList xs \<longrightarrow> normalize_records payload = JList xs"
    by (simp add: normalize_records_def)
  have c: "(\<forall>xs. payload \<noteq> JList xs) \<longrightarrow>
    (\<forall>kvs v. payload = JDict kvs \<longrightarrow> map_of kvs (lit ''value'') = Some v \<longrightarrow> v = JNull) \<longrightarrow>
       normalize_records payload = JList []"
    by (cases payload) (auto simp: normalize_records_def dict_get_def split: option.splits)
  have d: "\<not> truthy (normalize_records payload) \<longrightarrow>
       to_dataframe pd (normalize_records payload)
         = Some \<lparr>columns = [lit ''_no_rows''], rows = []\<rparr>"
    using to_dataframe_empty by blast
  have e: "\<forall>url (st :: fetch_state). build_bc_url config environment company api_name = Inr url \<longrightarrow>
       api_get ext (requests st) url = Inr payload \<longrightarrow>
       \<not> truthy (normalize_records payload) \<longrightarrow>
       (\<exists>st'. fetch_pair ext config environment company api_name st = (None, st')
            \<and> map_of (sheets st') (safe_sheet_name (company @ lit ''__'' @ api_name))
                = Some \<lparr>columns = [lit ''_no_rows''], rows = []\<rparr>
            \<and> created (results st') = created (results st)
                @ [lit ''BusinessCentral/'' @ company @ lit ''/'' @ api_name]
            \<and> failed (results st') = failed (results st))"
  proof (intro allI impI)
    fix url and st :: fetch_state
    assume u: "build_bc_url config environment company api_name = Inr url"
      and p: "api_get ext (requests st) url = Inr payload"
      and n: "\<not> truthy (normalize_records payload)"
    have t: "to_dataframe (pd_other ext) (normalize_records payload)
               = Some \<lparr>columns = [lit ''_no_rows''], rows = []\<rparr>"
      using to_dataframe_empty [OF n] .
    show "\<exists>st'. fetch_pair ext config environment company api_name st = (None, st')
            \<and> map_of (sheets st') (safe_sheet_name (company @ lit ''__'' @ api_name))
                = Some \<lparr>columns = [lit ''_no_rows''], rows = []\<rparr>
            \<and> created (results st') = created (results st)
                @ [lit ''BusinessCentral/'' @ company @ lit ''/'' @ api_name]
            \<and> failed (results st') = failed (results st)"
      unfolding fetch_pair_ok [OF u p t] by (simp add: update_conv')
  qed
  from a b c d e show ?thesis by blast
qed

theorem normalizer_and_placeholder_witness:
  "normalize_records ex_payload = JList [JDict [(lit ''id'', JNum 1)], JDict [(lit ''id'', JNum 2)]]
 \<and> normalize_records (JList [JNum 7]) = JList [JNum 7]
 \<and> normalize_records (JDict [(lit ''count'', JNum 3)]) = JList []
 \<and> to_dataframe (\<lambda>records. None) (normalize_records JNull)
     = Some \<lparr>columns = [lit ''_no_rows''], rows = []\<rparr>
 \<and> (\<exists>st'. fetch_pair (ex_externals (\<lambda>history url. Inr JNull) True)
             (ex_config [lit ''A''] [lit ''X'']) (lit ''TestSE'') (lit ''A'') (lit ''X'')
             initial_state = (None, st')
        \<and> map_of (sheets st') (safe_sheet_name (lit ''A'' @ lit ''__'' @ lit ''X''))
            = Some \<lparr>columns = [lit ''_no_rows''], rows = []\<rparr>
        \<and> created (results st') = created (results initial_state)
            @ [lit ''BusinessCentral/'' @ lit ''A'' @ lit ''/'' @ lit ''X'']
        \<and> failed (results st') = failed (results initial_state))"
proof -
  note t1 = normalizer_and_placeholder [where payload = ex_payload]
  note t2 = normalizer_and_placeholder [where payload = "JList [JNum 7]"]
  note t3 = normalizer_and_placeholder [where payload = "JDict [(lit ''count'', JNum 3)]"]
  note t4 = normalizer_and_placeholder [where payload = JNull and pd = "\<lambda>records. None"
     and ext = "ex_externals (\<lambda>history url. Inr JNull) True"
     and config = "ex_config [lit ''A''] [lit ''X'']" and environment = "lit ''TestSE''"
     and company = "lit ''A''" and api_name = "lit ''X''"]
  have a: "normalize_records ex_payload
             = JList [JDict [(lit ''id'', JNum 1)], JDict [(lit ''id'', JNum 2)]]"
    using t1 by (simp add: ex_payload_def)
  have b: "normalize_records (JList [JNum 7]) = JList [JNum 7]"
    using t2 by simp
  have c: "normalize_records (JDict [(lit ''count'', JNum 3)]) = JList []"
    using t3 by simp
  have n: "normalize_records JNull = JList []"
    using t4 by simp
  have d: "to_dataframe (\<lambda>records. None) (normalize_records JNull)
     = Some \<lparr>columns = [lit ''_no_rows''], rows = []\<rparr>"
    using t4 n by simp
  have u: "build_bc_url (ex_config [lit ''A''] [lit ''X'']) (lit ''TestSE'') (lit ''A'') (lit ''X'')
             = Inr (lit ''https://api.example.com/v2.0/t1/TestSE/ODataV4/Company('A')/X'')"
    by (simp add: build_bc_url_def ex_config_def rstrip_def)
  have p: "api_get (ex_externals (\<lambda>history url. Inr JNull) True) (requests initial_state)
             (lit ''https://api.example.com/v2.0/t1/TestSE/ODataV4/Company('A')/X'') = Inr JNull"
    by (simp add: ex_externals_def)
  have f: "\<not> truthy (normalize_records JNull)"
    using n by simp
  from t4 u p f have e: "\<exists>st'. fetch_pair (ex_externals (\<lambda>history url. Inr JNull) True)
             (ex_config [lit ''A''] [lit ''X'']) (lit ''TestSE'') (lit ''A'') (lit ''X'')
             initial_state = (None, st')
        \<and> map_of (sheets st') (safe_sheet_name (lit ''A'' @ lit ''__'' @ lit ''X''))
            = Some \<lparr>columns = [lit ''_no_rows''], rows = []\<rparr>
        \<and> created (results st') = created (results initial_state)
            @ [lit ''BusinessCentral/'' @ lit ''A'' @ lit ''/'' @ lit ''X'']
        \<and> failed (results st') = failed (results initial_state)"
    by blast
  from a b c d e show ?thesis by blast
qed

text \<open>
  C4. The code departs from the claim at a body whose \<^verbatim>\<open>value\<close> entry is not a list. For
  the body \<^verbatim>\<open>{"value": 5}\<close>, a dictionary without a records collection, the row source is
  not the empty row set but the number 5: only \<^verbatim>\<open>None\<close> is coerced to a list. The number
  is truthy, so no placeholder table is built; pandas is called on it, and when pandas
  raises, the pair is recorded as failed with \<^verbatim>\<open>unexpected error\<close> and no sheet is stored.
\<close>

theorem value_scalar_divergence:
  "normalize_records (JDict [(lit ''value'', JNum 5)]) = JNum 5
 \<and> truthy (JNum 5)
 \<and> to_dataframe (\<lambda>records. None) (normalize_records (JDict [(lit ''value'', JNum 5)])) = None
 \<and> fetch_pair (ex_externals (\<lambda>history url. Inr (JDict [(lit ''value'', JNum 5)])) True)
      (ex_config [lit ''TXO''] [lit ''IntercompanyPartner'']) (lit ''TestSE'')
      (lit ''TXO'') (lit ''IntercompanyPartner'') initial_state
     = (None,
        \<lparr>results = \<lparr>created = [], updated = [],
                    failed = [lit ''BusinessCentral/TXO/IntercompanyPartner: unexpected error''],
                    expected_errors = 0\<rparr>,
        sheets = [],
        requests = [lit ''https://api.example.com/v2.0/t1/TestSE/ODataV4/Company('TXO')/IntercompanyPartner'']\<rparr>)"
  by (simp add: run_defs)

section \<open>The run as a whole\<close>

lemma read_settings_configured:
  "read_settings config = Inr (environment, cs, as, excel_filename)
     \<longleftrightarrow> configured config environment cs as excel_filename"
proof (cases "business_central config")
  case None
  then show ?thesis by (simp add: read_settings_def configured_def)
next
  case (Some bc)
  show ?thesis
  proof (cases "script_behavior config")
    case None
    with Some show ?thesis
      by (cases "bc_environment_name bc"; cases "bc_companies bc"; cases "bc_apis bc")
         (simp_all add: read_settings_def configured_def)
  next
    case sb: (Some sb)
    with Some show ?thesis
      by (cases "bc_environment_name bc"; cases "bc_companies bc"; cases "bc_apis bc";
          cases "excel_output_filename sb")
         (auto simp: read_settings_def configured_def)
  qed
qed

lemma read_settings_missing:
  assumes "missing_setting config"
  shows "\<exists>k \<in> set [''business-central'', ''environment-name'', ''companies'', ''apis'',
                     ''script-behavior'', ''excel-output-filename''].
           read_settings config = Inl (KeyError (lit k))"
proof (cases "business_central config")
  case None
  then show ?thesis by (simp add: read_settings_def)
next
  case (Some bc)
  show ?thesis
  proof (cases "script_behavior config")
    case None
    with Some show ?thesis
      by (cases "bc_environment_name bc"; cases "bc_companies bc"; cases "bc_apis bc")
         (simp_all add: read_settings_def)
  next
    case sb: (Some sb)
    with Some assms show ?thesis
      by (cases "bc_environment_name bc"; cases "bc_companies bc"; cases "bc_apis bc";
          cases "excel_output_filename sb")
         (simp_all add: read_settings_def missing_setting_def)
  qed
qed

lemma configured_or_missing:
  "missing_setting config \<or> (\<exists>environment cs as excel_filename.
      configured config environment cs as excel_filename)"
proof (cases "business_central config")
  case None
  then show ?thesis by (simp add: missing_setting_def)
next
  case (Some bc)
  then show ?thesis
    by (cases "script_behavior config")
       (auto simp: missing_setting_def configured_def)
qed

lemma configured_not_missing:
  "configured config environment cs as excel_filename \<Longrightarrow> \<not> missing_setting config"
  by (auto simp: missing_setting_def configured_def split: option.splits)

lemma configured_empty_list:
  "configured config environment cs as excel_filename
     \<Longrightarrow> empty_list config \<longleftrightarrow> cs = [] \<or> as = []"
  by (auto simp: empty_list_def configured_def split: option.splits)

lemma main_missing_setting:
  assumes "missing_setting config"
  shows "\<exists>k \<in> set [''business-central'', ''environment-name'', ''companies'', ''apis'',
                     ''script-behavior'', ''excel-output-filename''].
           main ext config
             = aborted (ConfigurationError (lit ''Missing configuration key: '' @ repr_key (lit k)))
                 initial_state"
proof -
  obtain k where k: "k \<in> set [''business-central'', ''environment-name'', ''companies'', ''apis'',
                     ''script-behavior'', ''excel-output-filename'']"
    and r: "read_settings config = Inl (KeyError (lit k))"
    using read_settings_missing [OF assms] by blast
  have "main ext config
          = aborted (ConfigurationError (lit ''Missing configuration key: '' @ repr_key (lit k)))
              initial_state"
    by (simp add: main_def r)
  with k show ?thesis by blast
qed

lemma main_empty_list:
  assumes "configured config environment cs as excel_filename" and "cs = [] \<or> as = []"
  shows "main ext config
           = aborted (HelpfulError (lit ''No companies or APIs defined.'')) initial_state"
proof -
  have "read_settings config = Inr (environment, cs, as, excel_filename)"
    using assms(1) by (simp add: read_settings_configured)
  with assms(2) show ?thesis
    by (auto simp: main_def)
qed

lemma fetch_companies_incomplete:
  assumes "\<not> complete_global config" and "cs \<noteq> []" and "as \<noteq> []"
  shows "\<exists>k. fetch_companies ext config environment cs as st = (Some (KeyError k), st)"
proof -
  obtain c cs' a as' where cs: "cs = c # cs'" and as: "as = a # as'"
    using assms(2,3) by (cases cs; cases as) auto
  obtain k where "build_bc_url config environment c a = Inl (KeyError k)"
    using build_bc_url_incomplete [OF assms(1)] by blast
  then have "fetch_pair ext config environment c a st = (Some (KeyError k), st)"
    by (simp add: fetch_pair_def)
  then have "fetch_companies ext config environment cs as st = (Some (KeyError k), st)"
    by (simp add: cs as)
  then show ?thesis by blast
qed

lemma main_incomplete_global:
  assumes "configured config environment cs as excel_filename" and "cs \<noteq> []" and "as \<noteq> []"
    and "\<not> complete_global config"
  shows "\<exists>k. main ext config = aborted (KeyError k) initial_state"
proof -
  have r: "read_settings config = Inr (environment, cs, as, excel_filename)"
    using assms(1) by (simp add: read_settings_configured)
  obtain k where "fetch_companies ext config environment cs as initial_state
                    = (Some (KeyError k), initial_state)"
    using fetch_companies_incomplete [OF assms(4) assms(2) assms(3)] by blast
  then have "main ext config = aborted (KeyError k) initial_state"
    using assms(2,3) by (simp add: main_def r)
  then show ?thesis by blast
qed

lemma main_after_loop:
  assumes "configured config environment cs as excel_filename" and "cs \<noteq> []" and "as \<noteq> []"
    and "fetch_companies ext config environment cs as initial_state = (None, st)"
  shows "main ext config =
     (if excel_write ext (get_path ext excel_filename) (sheets st)
      then \<lparr>raised = None, fetched = st, workbook = Some (sheets st),
            summary_file = Some (lit ''bc-fetch-summary_'' @ utc_timestamp ext @ lit ''.json'',
              \<lparr>s_timestamp = utc_timestamp ext, s_org = org_id config, s_env = env_type config,
               s_environment_name = environment, s_companies = cs, s_apis = as,
               s_excel_file = path_name ext excel_filename,
               s_created = created (results st), s_failed = failed (results st)\<rparr>),
            status_line = Some (summary (results st))\<rparr>
      else aborted (FileOperationError (lit ''Failed to write Excel file: ''
                      @ get_path ext excel_filename)) st)"
proof -
  have r: "read_settings config = Inr (environment, cs, as, excel_filename)"
    using assms(1) by (simp add: read_settings_configured)
  show ?thesis
    using assms(2,3,4) by (simp add: main_def r Let_def)
qed

lemma configured_fields:
  assumes "configured config environment cs as excel_filename"
  shows "\<exists>bc. business_central config = Some bc \<and> bc_companies bc = Some cs
              \<and> bc_apis bc = Some as"
  using assms by (auto simp: configured_def split: option.splits)

lemma main_completed:
  assumes "raised (main ext config) = None"
  shows "\<exists>environment cs as excel_filename st.
            configured config environment cs as excel_filename
          \<and> complete_global config
          \<and> fetch_companies ext config environment cs as initial_state = (None, st)
          \<and> fetched (main ext config) = st
          \<and> workbook (main ext config) = Some (sheets st)"
proof -
  have ok: "\<not> missing_setting config"
  proof
    assume "missing_setting config"
    then obtain m where "main ext config = aborted (ConfigurationError m) initial_state"
      using main_missing_setting by blast
    with assms show False by (simp add: aborted_def)
  qed
  then obtain environment cs as excel_filename
    where c: "configured config environment cs as excel_filename"
    using configured_or_missing by blast
  have ne: "cs \<noteq> [] \<and> as \<noteq> []"
  proof (rule ccontr)
    assume "\<not> (cs \<noteq> [] \<and> as \<noteq> [])"
    then have "cs = [] \<or> as = []" by simp
    from main_empty_list [OF c this, of ext] assms show False
      by (simp add: aborted_def)
  qed
  have g: "complete_global config"
  proof (rule ccontr)
    assume "\<not> complete_global config"
    then obtain k where "main ext config = aborted (KeyError k) initial_state"
      using main_incomplete_global [OF c] ne by blast
    with assms show False by (simp add: aborted_def)
  qed
  obtain st where loop: "fetch_companies ext config environment cs as initial_state = (None, st)"
    using loop_outcomes [OF g] by blast
  have m: "main ext config =
     (if excel_write ext (get_path ext excel_filename) (sheets st)
      then \<lparr>raised = None, fetched = st, workbook = Some (sheets st),
            summary_file = Some (lit ''bc-fetch-summary_'' @ utc_timestamp ext @ lit ''.json'',
              \<lparr>s_timestamp = utc_timestamp ext, s_org = org_id config, s_env = env_type config,
               s_environment_name = environment, s_companies = cs, s_apis = as,
               s_excel_file = path_name ext excel_filename,
               s_created = created (results st), s_failed = failed (results st)\<rparr>),
            status_line = Some (summary (results st))\<rparr>
      else aborted (FileOperationError (lit ''Failed to write Excel file: ''
                      @ get_path ext excel_filename)) st)"
    using main_after_loop [OF c _ _ loop] ne by blast
  have w: "excel_write ext (get_path ext excel_filename) (sheets st)"
  proof (rule ccontr)
    assume "\<not> excel_write ext (get_path ext excel_filename) (sheets st)"
    with m assms show False by (simp add: aborted_def)
  qed
  have "fetched (main ext config) = st" and "workbook (main ext config) = Some (sheets st)"
    using m w by simp_all
  with c g loop show ?thesis by blast
qed

text \<open>
  C5, amended. In a run that ends without an exception, the number of sheets in the
  workbook is the number of pairs that succeeded, minus the number of succeeded pairs
  whose sheet name is that of an earlier succeeded pair. A pair that failed has no sheet.
\<close>

theorem sheet_count:
  assumes "raised (main ext config) = None"
  shows "\<exists>bc cs as wb outs.
      business_central config = Some bc \<and> bc_companies bc = Some cs \<and> bc_apis bc = Some as
    \<and> workbook (main ext config) = Some wb
    \<and> length outs = length (List.product cs as)
    \<and> created (results (fetched (main ext config))) = created_of (zip (List.product cs as) outs)
    \<and> failed (results (fetched (main ext config))) = failed_of (zip (List.product cs as) outs)
    \<and> length wb + collisions [] (map sheet_name_of (succeeded_pairs (zip (List.product cs as) outs)))
        = length (succeeded_pairs (zip (List.product cs as) outs))"
proof -
  obtain environment cs as excel_filename st
    where c: "configured config environment cs as excel_filename"
      and g: "complete_global config"
      and loop: "fetch_companies ext config environment cs as initial_state = (None, st)"
      and f: "fetched (main ext config) = st"
      and w: "workbook (main ext config) = Some (sheets st)"
    using main_completed [OF assms] by blast
  obtain st' outs
    where loop': "fetch_companies ext config environment cs as initial_state = (None, st')"
      and len: "length outs = length (List.product cs as)"
      and cr: "created (results st') = created_of (zip (List.product cs as) outs)"
      and fa: "failed (results st') = failed_of (zip (List.product cs as) outs)"
      and keys: "map fst (sheets st')
               = add_keys [] (map sheet_name_of (succeeded_pairs (zip (List.product cs as) outs)))"
    using loop_outcomes [OF g] by blast
  have st: "st' = st"
    using loop loop' by simp
  have "length (sheets st) = length (map fst (sheets st))"
    by simp
  also have "\<dots> = length (add_keys [] (map sheet_name_of
                        (succeeded_pairs (zip (List.product cs as) outs))))"
    using keys st by simp
  finally have "length (sheets st)
      + collisions [] (map sheet_name_of (succeeded_pairs (zip (List.product cs as) outs)))
      = length (succeeded_pairs (zip (List.product cs as) outs))"
    using length_add_keys [of "map sheet_name_of (succeeded_pairs (zip (List.product cs as) outs))"]
    by simp
  moreover obtain bc where "business_central config = Some bc" "bc_companies bc = Some cs"
      "bc_apis bc = Some as"
    using configured_fields [OF c] by blast
  ultimately show ?thesis
    using w f len cr fa st by blast
qed

theorem sheet_count_witness:
  "raised (main (ex_externals (\<lambda>history url. Inr ex_payload) True)
                (ex_config [lit ''A'', lit ''A:''] [lit ''X''])) = None
 \<and> (\<exists>bc cs as wb outs.
      business_central (ex_config [lit ''A'', lit ''A:''] [lit ''X'']) = Some bc
    \<and> bc_companies bc = Some cs \<and> bc_apis bc = Some as
    \<and> workbook (main (ex_externals (\<lambda>history url. Inr ex_payload) True)
                      (ex_config [lit ''A'', lit ''A:''] [lit ''X''])) = Some wb
    \<and> length outs = length (List.product cs as)
    \<and> created (results (fetched (main (ex_externals (\<lambda>history url. Inr ex_payload) True)
                      (ex_config [lit ''A'', lit ''A:''] [lit ''X'']))))
        = created_of (zip (List.product cs as) outs)
    \<and> failed (results (fetched (main (ex_externals (\<lambda>history url. Inr ex_payload) True)
                      (ex_config [lit ''A'', lit ''A:''] [lit ''X'']))))
        = failed_of (zip (List.product cs as) outs)
    \<and> length wb + collisions [] (map sheet_name_of (succeeded_pairs (zip (List.product cs as) outs)))
        = length (succeeded_pairs (zip (List.product cs as) outs)))
 \<and> map_option (map fst) (workbook (main (ex_externals (\<lambda>history url. Inr ex_payload) True)
                      (ex_config [lit ''A'', lit ''A:''] [lit ''X''])))
     = Some [lit ''A__X'']
 \<and> created (results (fetched (main (ex_externals (\<lambda>history url. Inr ex_payload) True)
                      (ex_config [lit ''A'', lit ''A:''] [lit ''X'']))))
     = [lit ''BusinessCentral/A/X'', lit ''BusinessCentral/A:/X'']"
proof -
  have r: "raised (main (ex_externals (\<lambda>history url. Inr ex_payload) True)
                (ex_config [lit ''A'', lit ''A:''] [lit ''X''])) = None"
    by (simp add: run_defs)
  have w: "map_option (map fst) (workbook (main (ex_externals (\<lambda>history url. Inr ex_payload) True)
                      (ex_config [lit ''A'', lit ''A:''] [lit ''X''])))
     = Some [lit ''A__X'']"
    by (simp add: run_defs)
  have c: "created (results (fetched (main (ex_externals (\<lambda>history url. Inr ex_payload) True)
                      (ex_config [lit ''A'', lit ''A:''] [lit ''X'']))))
     = [lit ''BusinessCentral/A/X'', lit ''BusinessCentral/A:/X'']"
    by (simp add: run_defs)
  from sheet_count [OF r] r w c show ?thesis by blast
qed

theorem timeout_then_success_counterexample:
  "map_option (map fst)
     (workbook (main (ex_externals (\<lambda>history url. if history = [] then Inl ApiTimeoutError
                                                   else Inr ex_payload) True)
                     (ex_config [lit ''A'', lit ''B''] [lit ''X''])))
     = Some [lit ''B__X'']
 \<and> requests (fetched (main (ex_externals (\<lambda>history url. if history = [] then Inl ApiTimeoutError
                                                           else Inr ex_payload) True)
                             (ex_config [lit ''A'', lit ''B''] [lit ''X''])))
     = [lit ''https://api.example.com/v2.0/t1/TestSE/ODataV4/Company('A')/X'',
        lit ''https://api.example.com/v2.0/t1/TestSE/ODataV4/Company('B')/X'']
 \<and> length (List.product [lit ''A'', lit ''B''] [lit ''X''])
     - collisions [] (map sheet_name_of (List.product [lit ''A'', lit ''B''] [lit ''X'']))
     = 2"
  by (simp add: run_defs sheet_name_of_def)

text \<open>
  How a run ends on a bad configuration: with a \<open>ConfigurationError\<close> when a key read at
  the start is missing, else with a \<open>HelpfulError\<close> when the companies or the apis list
  is empty, else, when a key of the \<^verbatim>\<open>global\<close> section is missing, with the \<open>KeyError\<close>
  itself. In each case no URL has been requested through the client, no workbook is
  written, no summary is saved and no status line is logged.
\<close>

theorem configuration_errors_are_fatal:
  assumes "missing_setting config \<or> empty_list config \<or> \<not> complete_global config"
  shows "(\<exists>e. raised (main ext config) = Some e
            \<and> (case e of
                 ConfigurationError m \<Rightarrow> missing_setting config
               | HelpfulError m \<Rightarrow> \<not> missing_setting config \<and> empty_list config
               | KeyError k \<Rightarrow> \<not> missing_setting config \<and> \<not> empty_list config
                                 \<and> \<not> complete_global config
               | _ \<Rightarrow> False))
       \<and> requests (fetched (main ext config)) = []
       \<and> workbook (main ext config) = None
       \<and> summary_file (main ext config) = None
       \<and> status_line (main ext config) = None"
proof (cases "missing_setting config")
  case True
  then obtain m where "main ext config = aborted (ConfigurationError m) initial_state"
    using main_missing_setting by blast
  with True show ?thesis
    by (simp add: aborted_def initial_state_def)
next
  case False
  then obtain environment cs as excel_filename
    where c: "configured config environment cs as excel_filename"
    using configured_or_missing by blast
  show ?thesis
  proof (cases "cs = [] \<or> as = []")
    case True
    then have "empty_list config"
      using configured_empty_list [OF c] by simp
    with False main_empty_list [OF c True, of ext] show ?thesis
      by (simp add: aborted_def initial_state_def)
  next
    case nonempty: False
    then have ne: "\<not> empty_list config"
      using configured_empty_list [OF c] by simp
    with False assms have g: "\<not> complete_global config"
      by simp
    obtain k where "main ext config = aborted (KeyError k) initial_state"
      using main_incomplete_global [OF c _ _ g] nonempty by blast
    with False ne g show ?thesis
      by (simp add: aborted_def initial_state_def)
  qed
qed

theorem configuration_errors_are_fatal_witness:
  "empty_list (ex_config [lit ''TXO''] [])
 \<and> (\<exists>e. raised (main (ex_externals (\<lambda>history url. Inr ex_payload) True)
                        (ex_config [lit ''TXO''] [])) = Some e
       \<and> (case e of
             ConfigurationError m \<Rightarrow> missing_setting (ex_config [lit ''TXO''] [])
           | HelpfulError m \<Rightarrow> \<not> missing_setting (ex_config [lit ''TXO''] [])
                               \<and> empty_list (ex_config [lit ''TXO''] [])
           | KeyError k \<Rightarrow> \<not> missing_setting (ex_config [lit ''TXO''] [])
                             \<and> \<not> empty_list (ex_config [lit ''TXO''] [])
                             \<and> \<not> complete_global (ex_config [lit ''TXO''] [])
           | _ \<Rightarrow> False))
 \<and> raised (main (ex_externals (\<lambda>history url. Inr ex_payload) True) (ex_config [lit ''TXO''] []))
     = Some (HelpfulError (lit ''No companies or APIs defined.''))
 \<and> requests (fetched (main (ex_externals (\<lambda>history url. Inr ex_payload) True)
                             (ex_config [lit ''TXO''] []))) = []
 \<and> workbook (main (ex_externals (\<lambda>history url. Inr ex_payload) True)
                   (ex_config [lit ''TXO''] [])) = None
 \<and> summary_file (main (ex_externals (\<lambda>history url. Inr ex_payload) True)
                       (ex_config [lit ''TXO''] [])) = None
 \<and> status_line (main (ex_externals (\<lambda>history url. Inr ex_payload) True)
                      (ex_config [lit ''TXO''] [])) = None"
proof -
  have e: "empty_list (ex_config [lit ''TXO''] [])"
    by (simp add: empty_list_def ex_config_def)
  then have h: "missing_setting (ex_config [lit ''TXO''] []) \<or> empty_list (ex_config [lit ''TXO''] [])
                \<or> \<not> complete_global (ex_config [lit ''TXO''] [])"
    by simp
  have r: "raised (main (ex_externals (\<lambda>history url. Inr ex_payload) True)
                        (ex_config [lit ''TXO''] []))
             = Some (HelpfulError (lit ''No companies or APIs defined.''))"
    by (simp add: run_defs)
  from configuration_errors_are_fatal [OF h] e r show ?thesis
    by blast
qed

text \<open>
  C8. The code departs from the claim when a key of the \<^verbatim>\<open>global\<close> section is missing.
  With every key read at the start present and both lists non-empty, a configuration
  without the \<^verbatim>\<open>global\<close> section, or without its \<^verbatim>\<open>api-base-url\<close>, ends the run with the
  bare \<open>KeyError\<close> of that key, not with a \<open>ConfigurationError\<close> or a \<open>HelpfulError\<close>:
  the key is first read when the URL of the first pair is built, outside both \<^verbatim>\<open>try\<close>
  blocks and after the client has been opened.
\<close>

theorem missing_global_key_divergence:
  "\<not> missing_setting ((ex_config [lit ''TXO''] [lit ''IntercompanyPartner''])\<lparr>global := None\<rparr>)
 \<and> \<not> empty_list ((ex_config [lit ''TXO''] [lit ''IntercompanyPartner''])\<lparr>global := None\<rparr>)
 \<and> main (ex_externals (\<lambda>history url. Inr ex_payload) True)
         ((ex_config [lit ''TXO''] [lit ''IntercompanyPartner''])\<lparr>global := None\<rparr>)
     = aborted (KeyError (lit ''global'')) initial_state
 \<and> main (ex_externals (\<lambda>history url. Inr ex_payload) True)
         ((ex_config [lit ''TXO''] [lit ''IntercompanyPartner''])
            \<lparr>global := Some \<lparr>api_base_url = None, api_version = Some (lit ''v2.0''),
                              tenant_id = Some (lit ''t1'')\<rparr>\<rparr>)
     = aborted (KeyError (lit ''api-base-url'')) initial_state"
  by (simp add: run_defs missing_setting_def empty_list_def)

text \<open>
  C10. In a run that reaches the export: when writing the workbook raises, the run ends
  with a \<open>FileOperationError\<close>, and neither the summary file nor the status line is
  produced; when the write succeeds, the summary file is saved with the created and the
  failed list and the status line is logged, whatever the outcomes of the pairs.
\<close>

theorem workbook_write_decides_the_reports:
  assumes "configured config environment cs as excel_filename" and "cs \<noteq> []" and "as \<noteq> []"
    and "complete_global config"
  shows "\<exists>st. fetch_companies ext config environment cs as initial_state = (None, st)
      \<and> (\<not> excel_write ext (get_path ext excel_filename) (sheets st) \<longrightarrow>
            raised (main ext config)
              = Some (FileOperationError (lit ''Failed to write Excel file: ''
                                           @ get_path ext excel_filename))
          \<and> summary_file (main ext config) = None
          \<and> status_line (main ext config) = None)
      \<and> (excel_write ext (get_path ext excel_filename) (sheets st) \<longrightarrow>
            raised (main ext config) = None
          \<and> workbook (main ext config) = Some (sheets st)
          \<and> (\<exists>saved. summary_file (main ext config)
                        = Some (lit ''bc-fetch-summary_'' @ utc_timestamp ext @ lit ''.json'', saved)
                    \<and> s_created saved = created (results st)
                    \<and> s_failed saved = failed (results st))
          \<and> status_line (main ext config) = Some (summary (results st)))"
proof -
  obtain st where loop: "fetch_companies ext config environment cs as initial_state = (None, st)"
    using loop_outcomes [OF assms(4)] by blast
  note m = main_after_loop [OF assms(1-3) loop]
  have "\<not> excel_write ext (get_path ext excel_filename) (sheets st) \<longrightarrow>
            raised (main ext config)
              = Some (FileOperationError (lit ''Failed to write Excel file: ''
                                           @ get_path ext excel_filename))
          \<and> summary_file (main ext config) = None
          \<and> status_line (main ext config) = None"
    by (simp add: m aborted_def)
  moreover have "excel_write ext (get_path ext excel_filename) (sheets st) \<longrightarrow>
            raised (main ext config) = None
          \<and> workbook (main ext config) = Some (sheets st)
          \<and> (\<exists>saved. summary_file (main ext config)
                        = Some (lit ''bc-fetch-summary_'' @ utc_timestamp ext @ lit ''.json'', saved)
                    \<and> s_created saved = created (results st)
                    \<and> s_failed saved = failed (results st))
          \<and> status_line (main ext config) = Some (summary (results st))"
    by (simp add: m)
  ultimately show ?thesis using loop by blast
qed

theorem workbook_write_decides_the_reports_witness:
  "configured (ex_config [lit ''TXO''] [lit ''IntercompanyPartner'']) (lit ''TestSE'')
     [lit ''TXO''] [lit ''IntercompanyPartner''] (lit ''bc.xlsx'')
 \<and> complete_global (ex_config [lit ''TXO''] [lit ''IntercompanyPartner''])
 \<and> raised (main (ex_externals (\<lambda>history url. Inl ApiTimeoutError) False)
                 (ex_config [lit ''TXO''] [lit ''IntercompanyPartner'']))
     = Some (FileOperationError (lit ''Failed to write Excel file: output/bc.xlsx''))
 \<and> summary_file (main (ex_externals (\<lambda>history url. Inl ApiTimeoutError) False)
                       (ex_config [lit ''TXO''] [lit ''IntercompanyPartner''])) = None
 \<and> status_line (main (ex_externals (\<lambda>history url. Inl ApiTimeoutError) False)
                      (ex_config [lit ''TXO''] [lit ''IntercompanyPartner''])) = None
 \<and> raised (main (ex_externals (\<lambda>history url. Inl ApiTimeoutError) True)
                 (ex_config [lit ''TXO''] [lit ''IntercompanyPartner''])) = None
 \<and> (\<exists>saved. summary_file (main (ex_externals (\<lambda>history url. Inl ApiTimeoutError) True)
                                  (ex_config [lit ''TXO''] [lit ''IntercompanyPartner'']))
               = Some (lit ''bc-fetch-summary_20250101_120000Z.json'', saved)
           \<and> s_created saved = []
           \<and> s_failed saved = [lit ''BusinessCentral/TXO/IntercompanyPartner: timeout''])
 \<and> status_line (main (ex_externals (\<lambda>history url. Inl ApiTimeoutError) True)
                      (ex_config [lit ''TXO''] [lit ''IntercompanyPartner'']))
     = Some ([0x274C] @ lit '' Completed with 1 failures: 0 created, 0 updated, 1 failed'')"
proof -
  let ?cfg = "ex_config [lit ''TXO''] [lit ''IntercompanyPartner'']"
  let ?bad = "ex_externals (\<lambda>history url. Inl ApiTimeoutError) False"
  let ?good = "ex_externals (\<lambda>history url. Inl ApiTimeoutError) True"
  have c: "configured ?cfg (lit ''TestSE'') [lit ''TXO''] [lit ''IntercompanyPartner'']
             (lit ''bc.xlsx'')"
    by (simp add: configured_def ex_config_def)
  have g: "complete_global ?cfg"
    by (simp add: complete_global_def ex_config_def)
  have n1: "[lit ''TXO''] \<noteq> []" and n2: "[lit ''IntercompanyPartner''] \<noteq> []"
    by simp_all
  have bad: "raised (main ?bad ?cfg)
              = Some (FileOperationError (lit ''Failed to write Excel file: output/bc.xlsx''))
          \<and> summary_file (main ?bad ?cfg) = None
          \<and> status_line (main ?bad ?cfg) = None"
    using workbook_write_decides_the_reports [OF c n1 n2 g, where ext = ?bad]
    by (auto simp: ex_externals_def)
  have good: "raised (main ?good ?cfg) = None
     \<and> (\<exists>saved. summary_file (main ?good ?cfg)
               = Some (lit ''bc-fetch-summary_20250101_120000Z.json'', saved)
           \<and> s_created saved = []
           \<and> s_failed saved = [lit ''BusinessCentral/TXO/IntercompanyPartner: timeout''])
     \<and> status_line (main ?good ?cfg)
         = Some ([0x274C] @ lit '' Completed with 1 failures: 0 created, 0 updated, 1 failed'')"
    using workbook_write_decides_the_reports [OF c n1 n2 g, where ext = ?good]
    by (auto simp: fetch_pair_def build_bc_url_def rstrip_def ex_config_def ex_externals_def
                   initial_state_def summary_def Let_def)
  from c g bad good show ?thesis by blast
qed

section \<open>The example run\<close>

text \<open>
  C9. With companies \<^verbatim>\<open>["TXO"]\<close>, apis \<^verbatim>\<open>["IntercompanyPartner"]\<close>, a client whose get returns
  \<^verbatim>\<open>{"value": [{"id": 1}, {"id": 2}]}\<close> and a writer that succeeds, the run ends without an
  exception; the workbook has exactly one sheet, named \<^verbatim>\<open>TXO__IntercompanyPartner\<close>, with
  2 rows; the results and the saved summary have one created entry and no failed entry;
  and the status line is the check mark followed by
  \<^verbatim>\<open> All 1 operations successful: 1 created, 0 updated\<close>.
\<close>

theorem example_run:
  assumes "configured config environment [lit ''TXO''] [lit ''IntercompanyPartner''] excel_filename"
    and "complete_global config"
    and "\<forall>history url. api_get ext history url
           = Inr (JDict [(lit ''value'', JList [JDict [(lit ''id'', JNum 1)],
                                                 JDict [(lit ''id'', JNum 2)]])])"
    and "\<forall>path sheets. excel_write ext path sheets"
  shows "raised (main ext config) = None
       \<and> (\<exists>df. workbook (main ext config) = Some [(lit ''TXO__IntercompanyPartner'', df)]
              \<and> length (rows df) = 2)
       \<and> created (results (fetched (main ext config)))
           = [lit ''BusinessCentral/TXO/IntercompanyPartner'']
       \<and> failed (results (fetched (main ext config))) = []
       \<and> (\<exists>name saved. summary_file (main ext config) = Some (name, saved)
              \<and> s_created saved = [lit ''BusinessCentral/TXO/IntercompanyPartner'']
              \<and> s_failed saved = [])
       \<and> status_line (main ext config)
           = Some ([0x2705] @ lit '' All 1 operations successful: 1 created, 0 updated'')"
proof -
  let ?payload = "JDict [(lit ''value'', JList [JDict [(lit ''id'', JNum 1)],
                                                 JDict [(lit ''id'', JNum 2)]])]"
  let ?df = "frame_of_dicts [[(lit ''id'', JNum 1)], [(lit ''id'', JNum 2)]]"
  obtain url where u: "build_bc_url config environment (lit ''TXO'') (lit ''IntercompanyPartner'') = Inr url"
    using build_bc_url_complete [OF assms(2)] by blast
  have p: "api_get ext (requests initial_state) url = Inr ?payload"
    using assms(3) by simp
  have t: "to_dataframe (pd_other ext) (normalize_records ?payload) = Some ?df"
    by (simp add: to_dataframe_def normalize_records_def dict_get_def from_records_def
                  frame_of_dicts_def)
  have step: "fetch_pair ext config environment (lit ''TXO'') (lit ''IntercompanyPartner'') initial_state
      = (None, initial_state\<lparr>requests := requests initial_state @ [url],
               sheets := AList.update (safe_sheet_name (lit ''TXO'' @ lit ''__'' @ lit ''IntercompanyPartner'')) ?df
                           (sheets initial_state),
               results := (results initial_state)\<lparr>created := created (results initial_state) @
                 [lit ''BusinessCentral/'' @ lit ''TXO'' @ lit ''/'' @ lit ''IntercompanyPartner'']\<rparr>\<rparr>)"
    using fetch_pair_ok [OF u p t] .
  have name: "safe_sheet_name (lit ''TXO'' @ lit ''__'' @ lit ''IntercompanyPartner'')
                = lit ''TXO__IntercompanyPartner''"
    by (simp add: safe_sheet_name_def invalid_def)
  define st where "st = \<lparr>results = \<lparr>created = [lit ''BusinessCentral/TXO/IntercompanyPartner''],
                                      updated = [], failed = [], expected_errors = 0\<rparr>,
                         sheets = [(lit ''TXO__IntercompanyPartner'', ?df)], requests = [url]\<rparr>"
  have step': "fetch_pair ext config environment (lit ''TXO'') (lit ''IntercompanyPartner'') initial_state
      = (None, st)"
    unfolding step name st_def by (simp add: initial_state_def)
  have loop: "fetch_companies ext config environment [lit ''TXO''] [lit ''IntercompanyPartner'']
                initial_state = (None, st)"
    using step' by simp
  have w: "excel_write ext (get_path ext excel_filename) (sheets st)"
    using assms(4) by simp
  have m: "main ext config =
      \<lparr>raised = None, fetched = st, workbook = Some (sheets st),
            summary_file = Some (lit ''bc-fetch-summary_'' @ utc_timestamp ext @ lit ''.json'',
              \<lparr>s_timestamp = utc_timestamp ext, s_org = org_id config, s_env = env_type config,
               s_environment_name = environment, s_companies = [lit ''TXO''],
               s_apis = [lit ''IntercompanyPartner''],
               s_excel_file = path_name ext excel_filename,
               s_created = created (results st), s_failed = failed (results st)\<rparr>),
            status_line = Some (summary (results st))\<rparr>"
    using main_after_loop [OF assms(1) _ _ loop] w by simp
  have rows: "length (rows ?df) = 2"
    by (simp add: frame_of_dicts_def)
  have line: "summary (results st)
      = [0x2705] @ lit '' All 1 operations successful: 1 created, 0 updated''"
    by (simp add: st_def summary_def)
  have "raised (main ext config) = None"
    by (simp add: m)
  moreover have "\<exists>df. workbook (main ext config) = Some [(lit ''TXO__IntercompanyPartner'', df)]
              \<and> length (rows df) = 2"
    using rows by (simp add: m st_def)
  moreover have "created (results (fetched (main ext config)))
           = [lit ''BusinessCentral/TXO/IntercompanyPartner'']"
    by (simp add: m st_def)
  moreover have "failed (results (fetched (main ext config))) = []"
    by (simp add: m st_def)
  moreover have "\<exists>name saved. summary_file (main ext config) = Some (name, saved)
              \<and> s_created saved = [lit ''BusinessCentral/TXO/IntercompanyPartner'']
              \<and> s_failed saved = []"
    by (simp add: m st_def)
  moreover have "status_line (main ext config)
           = Some ([0x2705] @ lit '' All 1 operations successful: 1 created, 0 updated'')"
    using line by (simp add: m)
  ultimately show ?thesis by blast
qed

theorem example_run_witness:
  "configured (ex_config [lit ''TXO''] [lit ''IntercompanyPartner'']) (lit ''TestSE'')
     [lit ''TXO''] [lit ''IntercompanyPartner''] (lit ''bc.xlsx'')
 \<and> complete_global (ex_config [lit ''TXO''] [lit ''IntercompanyPartner''])
 \<and> raised (main (ex_externals (\<lambda>history url. Inr ex_payload) True)
              (ex_config [lit ''TXO''] [lit ''IntercompanyPartner''])) = None
 \<and> status_line (main (ex_externals (\<lambda>history url. Inr ex_payload) True)
                   (ex_config [lit ''TXO''] [lit ''IntercompanyPartner'']))
     = Some ([0x2705] @ lit '' All 1 operations successful: 1 created, 0 updated'')"
proof -
  have c: "configured (ex_config [lit ''TXO''] [lit ''IntercompanyPartner'']) (lit ''TestSE'')
     [lit ''TXO''] [lit ''IntercompanyPartner''] (lit ''bc.xlsx'')"
    by (simp add: configured_def ex_config_def)
  have g: "complete_global (ex_config [lit ''TXO''] [lit ''IntercompanyPartner''])"
    by (simp add: complete_global_def ex_config_def)
  have a: "\<forall>history url. api_get (ex_externals (\<lambda>history url. Inr ex_payload) True) history url
           = Inr (JDict [(lit ''value'', JList [JDict [(lit ''id'', JNum 1)],
                                                 JDict [(lit ''id'', JNum 2)]])])"
    by (simp add: ex_externals_def ex_payload_def)
  have w: "\<forall>path sheets. excel_write (ex_externals (\<lambda>history url. Inr ex_payload) True) path sheets"
    by (simp add: ex_externals_def)
  from example_run [OF c g a w] c g show ?thesis by blast
qed

end
